theory Spec2Isabelle
  imports Complex_Main
begin

section \<open>AI provider selection (lib/ai-providers/factory.ts)\<close>

text \<open>
  The provider type is the string union of \<^verbatim>\<open>base.ts\<close>. The process environment is a
  partial map from variable names to values; \<^verbatim>\<open>getEnvValue\<close> reads it.
\<close>

datatype AIProviderType = claude | openai | groq | huggingface | ollama

type_synonym env = "string \<Rightarrow> string option"

definition getEnvValue :: "env \<Rightarrow> string \<Rightarrow> string option" where
  "getEnvValue e key = e key"

text \<open>
  A provider object as far as selection looks at it: its name, the API key of its
  configuration, and whether the constructor built an SDK client (the Claude and OpenAI
  classes build one exactly when the key is a non-empty string; the others have none).
\<close>

record AIProvider =
  getName :: AIProviderType
  apiKey :: string
  client :: bool

text \<open>\<^verbatim>\<open>a || ''\<close> on an optional string.\<close>

definition orEmpty :: "string option \<Rightarrow> string" where
  "orEmpty v = (case v of None \<Rightarrow> [] | Some s \<Rightarrow> s)"

text \<open>\<^verbatim>\<open>createProvider(type)\<close> with no custom configuration.\<close>

fun createProvider :: "env \<Rightarrow> AIProviderType \<Rightarrow> AIProvider" where
  "createProvider e claude =
     (let k = orEmpty (getEnvValue e ''ANTHROPIC_API_KEY'')
      in \<lparr>getName = claude, apiKey = k, client = (k \<noteq> [])\<rparr>)"
| "createProvider e openai =
     (let k = orEmpty (getEnvValue e ''OPENAI_API_KEY'')
      in \<lparr>getName = openai, apiKey = k, client = (k \<noteq> [])\<rparr>)"
| "createProvider e groq =
     \<lparr>getName = groq, apiKey = orEmpty (getEnvValue e ''GROQ_API_KEY''), client = False\<rparr>"
| "createProvider e huggingface =
     \<lparr>getName = huggingface, apiKey = orEmpty (getEnvValue e ''HUGGINGFACE_API_KEY''),
      client = False\<rparr>"
| "createProvider e ollama = \<lparr>getName = ollama, apiKey = [], client = False\<rparr>"

text \<open>The \<^verbatim>\<open>isAvailable()\<close> method of each provider class.\<close>

definition isAvailable :: "AIProvider \<Rightarrow> bool" where
  "isAvailable p =
     (case getName p of
        claude \<Rightarrow> client p \<and> apiKey p \<noteq> []
      | openai \<Rightarrow> client p \<and> apiKey p \<noteq> []
      | groq \<Rightarrow> apiKey p \<noteq> []
      | huggingface \<Rightarrow> apiKey p \<noteq> []
      | ollama \<Rightarrow> True)"

definition getAllProviders :: "env \<Rightarrow> AIProvider list" where
  "getAllProviders e = map (createProvider e) [claude, openai, groq, huggingface, ollama]"

definition priorityOrder :: "AIProviderType list" where
  "priorityOrder = [groq, ollama, huggingface, claude, openai]"

text \<open>
  The \<^verbatim>\<open>for (const type of priorityOrder)\<close> loop of \<^verbatim>\<open>getDefaultProvider\<close>: the
  first type whose provider object is found and available.
\<close>

fun priorityScan :: "AIProvider list \<Rightarrow> AIProviderType list \<Rightarrow> AIProviderType option" where
  "priorityScan ps [] = None"
| "priorityScan ps (t # ts) =
     (case find (\<lambda>p. getName p = t) ps of
        Some p \<Rightarrow> if isAvailable p then Some t else priorityScan ps ts
      | None \<Rightarrow> priorityScan ps ts)"

text \<open>The body of \<^verbatim>\<open>getDefaultProvider\<close> once \<^verbatim>\<open>providers\<close> is bound.\<close>

definition defaultAmong :: "AIProvider list \<Rightarrow> AIProviderType" where
  "defaultAmong ps =
     (case priorityScan ps priorityOrder of
        Some t \<Rightarrow> t
      | None \<Rightarrow> (case find isAvailable ps of Some p \<Rightarrow> getName p | None \<Rightarrow> groq))"

definition getDefaultProvider :: "env \<Rightarrow> AIProviderType" where
  "getDefaultProvider e = defaultAmong (getAllProviders e)"

text \<open>
  The membership test
  \<^verbatim>\<open>['claude', 'openai', 'groq', 'huggingface', 'ollama'].includes(preferred)\<close>, giving the
  type the string names.
\<close>

definition providerOfName :: "string \<Rightarrow> AIProviderType option" where
  "providerOfName s =
     (if s = ''claude'' then Some claude
      else if s = ''openai'' then Some openai
      else if s = ''groq'' then Some groq
      else if s = ''huggingface'' then Some huggingface
      else if s = ''ollama'' then Some ollama
      else None)"

definition getPreferredProvider :: "env \<Rightarrow> AIProviderType" where
  "getPreferredProvider e =
     (case getEnvValue e ''AI_PROVIDER'' of
        None \<Rightarrow> getDefaultProvider e
      | Some preferred \<Rightarrow>
          (case providerOfName preferred of
             None \<Rightarrow> getDefaultProvider e
           | Some t \<Rightarrow>
               if isAvailable (createProvider e t) then t else getDefaultProvider e))"

text \<open>
  The selection as the specification words it. \<open>nameOf\<close> is the string each provider
  type is; \<open>available\<close> is the availability of the provider the factory creates for a
  type; \<open>firstAvailable\<close> is the first available provider in the order groq, ollama,
  huggingface, claude, openai, and groq when none is available.
\<close>

fun nameOf :: "AIProviderType \<Rightarrow> string" where
  "nameOf claude = ''claude''"
| "nameOf openai = ''openai''"
| "nameOf groq = ''groq''"
| "nameOf huggingface = ''huggingface''"
| "nameOf ollama = ''ollama''"

definition available :: "env \<Rightarrow> AIProviderType \<Rightarrow> bool" where
  "available e t = isAvailable (createProvider e t)"

definition firstAvailable :: "env \<Rightarrow> AIProviderType" where
  "firstAvailable e =
     (if available e groq then groq
      else if available e ollama then ollama
      else if available e huggingface then huggingface
      else if available e claude then claude
      else if available e openai then openai
      else groq)"

text \<open>Environments for the examples: a preference with and without the key it needs.\<close>

definition openaiPreferred :: env where
  "openaiPreferred =
     Map.empty(''AI_PROVIDER'' \<mapsto> ''openai'', ''OPENAI_API_KEY'' \<mapsto> ''sk-test'',
               ''GROQ_API_KEY'' \<mapsto> ''gsk-test'')"

definition openaiWithoutKey :: env where
  "openaiWithoutKey =
     Map.empty(''AI_PROVIDER'' \<mapsto> ''openai'', ''GROQ_API_KEY'' \<mapsto> ''gsk-test'')"

definition unknownPreferred :: env where
  "unknownPreferred = Map.empty(''AI_PROVIDER'' \<mapsto> ''gemini'')"


section \<open>Observation ordering\<close>

text \<open>An observation, the \<^verbatim>\<open>ProcessedCandle\<close> built in \<^verbatim>\<open>useMarketData.ts\<close>.\<close>

record Observation =
  time :: int
  "open" :: real
  high :: real
  low :: real
  close :: real
  volume :: real

text \<open>
  Modelled from the spec: the dedup/sort stage lives in the chart component and the
  Binance fetcher, neither of which is among the sources. The specification asks for a
  defensive "sort + dedupe" in which duplicates of a time are collapsed, "keeping the
  most recently received values". \<open>dedupeLast\<close> keeps, of the entries sharing a time,
  the one received last; \<open>dedupSort\<close> then orders what is left by time.
\<close>

fun dedupeLast :: "Observation list \<Rightarrow> Observation list" where
  "dedupeLast [] = []"
| "dedupeLast (x # xs) =
     (if time x \<in> set (map time xs) then dedupeLast xs else x # dedupeLast xs)"

definition dedupSort :: "Observation list \<Rightarrow> Observation list" where
  "dedupSort xs = sort_key time (dedupeLast xs)"

text \<open>The entry received last for a time, if any.\<close>

definition lastReceived :: "Observation list \<Rightarrow> int \<Rightarrow> Observation option" where
  "lastReceived xs t = find (\<lambda>x. time x = t) (rev xs)"



section \<open>The streaming client (\<^verbatim>\<open>BinanceWebSocket\<close>, revision with the circuit breaker)\<close>

subsection \<open>Messages, observable effects and timers\<close>

text \<open>
  The \<^verbatim>\<open>k\<close> object of a kline event, with the fields the client and its listeners
  read. Prices are the strings of the wire format; an absent or empty \<^verbatim>\<open>c\<close> is the
  empty string (both are falsy).
\<close>

record KlinePayload =
  k_t :: int
  k_o :: string
  k_c :: string
  k_h :: string
  k_l :: string
  k_v :: string

record WebSocketKlineData =
  msg_e :: string
  msg_E :: int
  msg_s :: string
  msg_k :: "KlinePayload option"

record WebSocketTickerData =
  tk_e :: string
  tk_E :: int
  tk_s :: string
  tk_c :: string
  tk_o :: string
  tk_h :: string
  tk_l :: string
  tk_P :: string
  tk_p :: string

text \<open>
  What \<^verbatim>\<open>JSON.parse(event.data)\<close> makes of an inbound frame: an exception (with its
  text), or an object.
\<close>

datatype Inbound = Unparsable string | Json WebSocketKlineData

text \<open>
  The calls the client makes to the outside, in order: the four listener callbacks, the
  construction and the closing of a socket, and the cooldown the error handler prints
  when it trips the circuit breaker. Listeners are recorded, not run; they are taken
  not to throw.
\<close>

datatype Effect =
    KlineUpdate WebSocketKlineData
  | TickerUpdate WebSocketTickerData
  | ConnectionChange bool
  | ErrorCallback string
  | SocketCreated string
  | SocketClose
  | BreakerAnnounced int

datatype ReadyState = CONNECTING | OPEN | CLOSING | CLOSED

record WebSocket =
  wsUrl :: string
  readyState :: ReadyState

text \<open>
  The callbacks the client hands to \<^verbatim>\<open>setTimeout\<close> and \<^verbatim>\<open>setInterval\<close>, named by
  the place that schedules them, and a pending timer of the host: its handle, its
  callback, its delay in milliseconds and whether it repeats.
\<close>

datatype TimerTask =
    ConnectionTimeout
  | ExtendedBackoff
  | ErrorRetry
  | Reconnect
  | Heartbeat
  | DataTimeoutCheck
  | ChangeStreamConnect

record Timer =
  handle :: nat
  task :: TimerTask
  delay :: real
  periodic :: bool

subsection \<open>The client object\<close>

record Client =
  ws :: "WebSocket option"
  symbol :: string
  interval :: string
  onKlineUpdate :: bool
  onTickerUpdate :: bool
  onConnectionChange :: bool
  onErrorCallback :: bool
  reconnectAttempts :: nat
  maxReconnectAttempts :: nat
  connectionTimeout :: "nat option"
  isConnecting :: bool
  lastConnectionTime :: int
  pingInterval :: "nat option"
  lastDataReceived :: int
  dataTimeoutCheck :: "nat option"
  errorCount :: nat
  lastErrorTime :: int
  circuitBreakerDelay :: int
  isCircuitBreakerActive :: bool
  connectionAttempts :: nat
  lastSuccessfulConnection :: int
  currentUrlIndex :: nat
  timers :: "Timer list"
  nextHandle :: nat
  effects :: "Effect list"

definition wsUrls :: "string list" where
  "wsUrls = [''wss://stream.binance.com:9443'', ''wss://stream.binance.com:443'',
             ''wss://data-stream.binance.vision'']"

text \<open>\<^verbatim>\<open>toLowerCase\<close> on the ASCII letters, which is what symbols are made of.\<close>

fun lowerChar :: "char \<Rightarrow> char" where
  "lowerChar (Char b0 b1 b2 b3 b4 b5 b6 b7) =
     (if 65 \<le> (of_char (Char b0 b1 b2 b3 b4 b5 b6 b7) :: nat)
         \<and> (of_char (Char b0 b1 b2 b3 b4 b5 b6 b7) :: nat) \<le> 90
      then Char b0 b1 b2 b3 b4 True b6 b7 else Char b0 b1 b2 b3 b4 b5 b6 b7)"

definition toLowerCase :: "string \<Rightarrow> string" where
  "toLowerCase str = map lowerChar str"

text \<open>
  The constructor. No listener is registered yet, the host holds no timer of the
  instance; timer handles are positive, as the browser's are.
\<close>

definition createBinanceWebSocket :: "string \<Rightarrow> string \<Rightarrow> Client" where
  "createBinanceWebSocket sy iv =
     \<lparr>ws = None, symbol = toLowerCase sy, interval = iv,
      onKlineUpdate = False, onTickerUpdate = False, onConnectionChange = False,
      onErrorCallback = False,
      reconnectAttempts = 0, maxReconnectAttempts = 3, connectionTimeout = None,
      isConnecting = False, lastConnectionTime = 0, pingInterval = None,
      lastDataReceived = 0, dataTimeoutCheck = None, errorCount = 0, lastErrorTime = 0,
      circuitBreakerDelay = 15000, isCircuitBreakerActive = False, connectionAttempts = 0,
      lastSuccessfulConnection = 0, currentUrlIndex = 0,
      timers = [], nextHandle = 1, effects = []\<rparr>"

definition onKline :: "Client \<Rightarrow> Client" where
  "onKline c = c\<lparr>onKlineUpdate := True\<rparr>"

definition onTicker :: "Client \<Rightarrow> Client" where
  "onTicker c = c\<lparr>onTickerUpdate := True\<rparr>"

definition onConnection :: "Client \<Rightarrow> Client" where
  "onConnection c = c\<lparr>onConnectionChange := True\<rparr>"

definition onError :: "Client \<Rightarrow> Client" where
  "onError c = c\<lparr>onErrorCallback := True\<rparr>"

subsection \<open>Host operations\<close>

definition emit :: "Effect \<Rightarrow> Client \<Rightarrow> Client" where
  "emit x c = c\<lparr>effects := effects c @ [x]\<rparr>"

text \<open>\<^verbatim>\<open>setTimeout\<close> and \<^verbatim>\<open>setInterval\<close>: a fresh handle, the timer pending.\<close>

definition addTimer :: "TimerTask \<Rightarrow> real \<Rightarrow> bool \<Rightarrow> Client \<Rightarrow> Client" where
  "addTimer k d rep c =
     c\<lparr>timers := timers c @ [\<lparr>handle = nextHandle c, task = k, delay = d, periodic = rep\<rparr>],
       nextHandle := Suc (nextHandle c)\<rparr>"

text \<open>\<^verbatim>\<open>clearTimeout\<close> and \<^verbatim>\<open>clearInterval\<close>.\<close>

definition clearTimer :: "nat \<Rightarrow> Client \<Rightarrow> Client" where
  "clearTimer h c = c\<lparr>timers := filter (\<lambda>t. handle t \<noteq> h) (timers c)\<rparr>"

text \<open>\<^verbatim>\<open>this.ws.close()\<close> on the socket held: the closing handshake starts.\<close>

definition closeSocket :: "Client \<Rightarrow> Client" where
  "closeSocket c =
     (case ws c of
        None \<Rightarrow> c
      | Some w \<Rightarrow>
          emit SocketClose
            (c\<lparr>ws := Some (if readyState w = CLOSED then w else w\<lparr>readyState := CLOSING\<rparr>)\<rparr>))"

text \<open>The browser moves the socket held to a new ready state before it fires an event.\<close>

definition socketBecomes :: "ReadyState \<Rightarrow> Client \<Rightarrow> Client" where
  "socketBecomes r c = c\<lparr>ws := map_option (\<lambda>w. w\<lparr>readyState := r\<rparr>) (ws c)\<rparr>"

subsection \<open>Private helpers of the class\<close>

definition handleConnectionError :: "string \<Rightarrow> Client \<Rightarrow> Client" where
  "handleConnectionError msg c = (if onErrorCallback c then emit (ErrorCallback msg) c else c)"

text \<open>\<^verbatim>\<open>this.onConnectionChange?.(connected)\<close>.\<close>

definition notifyConnection :: "bool \<Rightarrow> Client \<Rightarrow> Client" where
  "notifyConnection b c = (if onConnectionChange c then emit (ConnectionChange b) c else c)"

definition isConnected :: "Client \<Rightarrow> bool" where
  "isConnected c = (case ws c of None \<Rightarrow> False | Some w \<Rightarrow> readyState w = OPEN)"

text \<open>
  The block \<^verbatim>\<open>if (this.connectionTimeout) { clearTimeout(...); this.connectionTimeout = null }\<close>
  of \<^verbatim>\<open>onopen\<close>, \<^verbatim>\<open>onclose\<close> and \<^verbatim>\<open>disconnect\<close>.
\<close>

definition clearConnectionTimeout :: "Client \<Rightarrow> Client" where
  "clearConnectionTimeout c =
     (case connectionTimeout c of
        None \<Rightarrow> c
      | Some h \<Rightarrow> (clearTimer h c)\<lparr>connectionTimeout := None\<rparr>)"

definition stopHeartbeat :: "Client \<Rightarrow> Client" where
  "stopHeartbeat c =
     (case pingInterval c of
        None \<Rightarrow> c
      | Some h \<Rightarrow> (clearTimer h c)\<lparr>pingInterval := None\<rparr>)"

definition startHeartbeat :: "Client \<Rightarrow> Client" where
  "startHeartbeat c =
     (let c1 = stopHeartbeat c
      in (addTimer Heartbeat 60000 True c1)\<lparr>pingInterval := Some (nextHandle c1)\<rparr>)"

definition stopDataTimeoutCheck :: "Client \<Rightarrow> Client" where
  "stopDataTimeoutCheck c =
     (case dataTimeoutCheck c of
        None \<Rightarrow> c
      | Some h \<Rightarrow> (clearTimer h c)\<lparr>dataTimeoutCheck := None\<rparr>)"

definition startDataTimeoutCheck :: "Client \<Rightarrow> Client" where
  "startDataTimeoutCheck c =
     (let c1 = stopDataTimeoutCheck c
      in (addTimer DataTimeoutCheck 30000 True c1)\<lparr>dataTimeoutCheck := Some (nextHandle c1)\<rparr>)"

subsection \<open>Reconnection\<close>

text \<open>
  \<^verbatim>\<open>handleReconnect\<close>. \<open>now\<close> is the reading of \<^verbatim>\<open>Date.now()\<close>, \<open>rnd\<close> the value
  \<^verbatim>\<open>Math.random()\<close> returns (in \<open>[0, 1)\<close>). The handle of the timer it sets is
  not kept anywhere in the object.
\<close>

definition handleReconnect :: "int \<Rightarrow> real \<Rightarrow> Client \<Rightarrow> Client" where
  "handleReconnect now rnd c =
     (if isCircuitBreakerActive c then c
      else if reconnectAttempts c < maxReconnectAttempts c then
        let c1 = c\<lparr>reconnectAttempts := Suc (reconnectAttempts c)\<rparr>;
            c2 = (if reconnectAttempts c1 > 1
                  then c1\<lparr>currentUrlIndex := (currentUrlIndex c1 + 1) mod length wsUrls\<rparr>
                  else c1);
            baseDelay = min (3000 * 2 ^ (reconnectAttempts c2 - 1)) 60000;
            jitter = rnd * 2000
        in addTimer Reconnect (baseDelay + jitter) False c2
      else
        handleConnectionError ''Max reconnection attempts reached''
          (c\<lparr>isCircuitBreakerActive := True, lastErrorTime := now\<rparr>))"

subsection \<open>\<^verbatim>\<open>connect\<close> and the socket's event handlers\<close>

text \<open>
  \<^verbatim>\<open>connect()\<close>. \<open>ctorError\<close> is the exception \<^verbatim>\<open>new WebSocket(wsUrl)\<close> throws, if
  it throws. The one reading \<open>now\<close> of the clock serves the whole call.
\<close>

definition connect :: "int \<Rightarrow> string option \<Rightarrow> Client \<Rightarrow> Client" where
  "connect now ctorError c =
     (if now - lastConnectionTime c < 3000 then c
      else if isConnecting c then c
      else if isCircuitBreakerActive c \<and> now - lastErrorTime c < circuitBreakerDelay c then c
      else
        let c1 = (if isCircuitBreakerActive c
                  then c\<lparr>isCircuitBreakerActive := False, errorCount := 0\<rparr> else c);
            c2 = c1\<lparr>connectionAttempts := Suc (connectionAttempts c1)\<rparr>
        in if connectionAttempts c2 > 5 \<and> now - lastSuccessfulConnection c2 > 60000
           then addTimer ExtendedBackoff
                  (min (real (connectionAttempts c2) * 5000) 60000) False c2
           else
             let c3 = c2\<lparr>isConnecting := True, lastConnectionTime := now\<rparr>;
                 c4 = (case connectionTimeout c3 of
                         None \<Rightarrow> c3 | Some h \<Rightarrow> clearTimer h c3)
             in (case ctorError of
                   None \<Rightarrow>
                     let url = wsUrls ! currentUrlIndex c4 @ ''/ws/'' @ symbol c4
                                 @ ''@kline_'' @ interval c4;
                         c5 = emit (SocketCreated url)
                                (c4\<lparr>ws := Some \<lparr>wsUrl = url, readyState = CONNECTING\<rparr>\<rparr>)
                     in (addTimer ConnectionTimeout 10000 False c5)
                          \<lparr>connectionTimeout := Some (nextHandle c5)\<rparr>
                 | Some err \<Rightarrow>
                     let c5 = handleConnectionError (''Failed to create WebSocket: '' @ err)
                                (c4\<lparr>isConnecting := False\<rparr>);
                         c6 = c5\<lparr>errorCount := Suc (errorCount c5)\<rparr>
                     in if errorCount c6 \<ge> 3
                        then c6\<lparr>isCircuitBreakerActive := True, lastErrorTime := now\<rparr>
                        else c6))"

text \<open>
  The handlers below are those of the socket the object holds in \<^verbatim>\<open>ws\<close>; the browser
  has moved that socket to its new ready state when it fires \<^verbatim>\<open>open\<close> or \<^verbatim>\<open>close\<close>.
\<close>

definition ws_onopen :: "int \<Rightarrow> Client \<Rightarrow> Client" where
  "ws_onopen now c =
     (let c0 = socketBecomes OPEN c;
          c1 = c0\<lparr>isConnecting := False, reconnectAttempts := 0, errorCount := 0,
                 connectionAttempts := 0, lastSuccessfulConnection := now,
                 currentUrlIndex := 0, isCircuitBreakerActive := False\<rparr>;
          c2 = clearConnectionTimeout c1;
          c3 = startDataTimeoutCheck (startHeartbeat c2);
          c4 = c3\<lparr>lastDataReceived := now\<rparr>
      in notifyConnection True c4)"

text \<open>The ticker the message handler makes up from a kline event.\<close>

definition syntheticTicker :: "WebSocketKlineData \<Rightarrow> KlinePayload \<Rightarrow> WebSocketTickerData" where
  "syntheticTicker d k =
     \<lparr>tk_e = ''24hrTicker'', tk_E = msg_E d, tk_s = msg_s d, tk_c = k_c k, tk_o = k_o k,
      tk_h = k_h k, tk_l = k_l k, tk_P = ''0.00'', tk_p = ''0.00''\<rparr>"

definition ws_onmessage :: "int \<Rightarrow> Inbound \<Rightarrow> Client \<Rightarrow> Client" where
  "ws_onmessage now inbound c =
     (let c1 = c\<lparr>lastDataReceived := now\<rparr>;
          c2 = (if isConnected c1 then notifyConnection True c1 else c1)
      in case inbound of
           Unparsable err \<Rightarrow> handleConnectionError (''Message parsing error: '' @ err) c2
         | Json d \<Rightarrow>
             if msg_e d = ''kline'' then
               let c3 = (if onKlineUpdate c2 then emit (KlineUpdate d) c2 else c2)
               in (case msg_k d of
                     None \<Rightarrow> c3
                   | Some k \<Rightarrow>
                       if k_c k \<noteq> [] then
                         (if onTickerUpdate c3
                          then emit (TickerUpdate (syntheticTicker d k)) c3 else c3)
                       else c3)
             else c2)"

definition ws_onclose :: "int \<Rightarrow> int \<Rightarrow> real \<Rightarrow> Client \<Rightarrow> Client" where
  "ws_onclose code now rnd c =
     (let c0 = socketBecomes CLOSED c;
          c1 = c0\<lparr>isConnecting := False\<rparr>;
          c2 = clearConnectionTimeout c1;
          c3 = stopDataTimeoutCheck (stopHeartbeat c2);
          c4 = notifyConnection False c3
      in if code \<noteq> 1000 \<and> \<not> isCircuitBreakerActive c4
         then handleReconnect now rnd c4 else c4)"

text \<open>
  \<^verbatim>\<open>onerror\<close>; \<open>errorMsg\<close> is what \<^verbatim>\<open>getErrorMessage\<close> makes of the event. The local
  \<^verbatim>\<open>breakerDelay\<close> is computed and printed, nothing else.
\<close>

definition ws_onerror :: "string \<Rightarrow> int \<Rightarrow> Client \<Rightarrow> Client" where
  "ws_onerror errorMsg now c =
     (let c1 = c\<lparr>isConnecting := False\<rparr>;
          c2 = c1\<lparr>errorCount := Suc (errorCount c1), lastErrorTime := now\<rparr>;
          c3 = notifyConnection False (handleConnectionError errorMsg c2)
      in if errorCount c3 \<ge> 3 then
           let c4 = c3\<lparr>isCircuitBreakerActive := True\<rparr>;
               breakerDelay = min (circuitBreakerDelay c4 * int (errorCount c4)) 120000
           in emit (BreakerAnnounced breakerDelay) c4
         else addTimer ErrorRetry 5000 False c3)"

subsection \<open>\<^verbatim>\<open>disconnect\<close>, \<^verbatim>\<open>changeStream\<close> and the timer callbacks\<close>

definition disconnect :: "Client \<Rightarrow> Client" where
  "disconnect c =
     (let c1 = clearConnectionTimeout c;
          c2 = stopDataTimeoutCheck (stopHeartbeat c1);
          c3 = c2\<lparr>isConnecting := False, reconnectAttempts := 0, errorCount := 0,
                 isCircuitBreakerActive := False, connectionAttempts := 0\<rparr>
      in case ws c3 of
           None \<Rightarrow> c3
         | Some w \<Rightarrow> (closeSocket c3)\<lparr>ws := None\<rparr>)"

definition changeStream :: "string \<Rightarrow> string \<Rightarrow> Client \<Rightarrow> Client" where
  "changeStream sy iv c =
     (let c1 = c\<lparr>symbol := toLowerCase sy, interval := iv, currentUrlIndex := 0,
                reconnectAttempts := 0,
                errorCount := 0, isCircuitBreakerActive := False, connectionAttempts := 0\<rparr>;
          c2 = disconnect (notifyConnection False c1)
      in addTimer ChangeStreamConnect 500 False c2)"

text \<open>The body of each scheduled callback, run at clock reading \<open>now\<close>.\<close>

fun runTask :: "TimerTask \<Rightarrow> int \<Rightarrow> string option \<Rightarrow> real \<Rightarrow> Client \<Rightarrow> Client" where
  "runTask ConnectionTimeout now ctorError rnd c =
     (case ws c of
        None \<Rightarrow> c
      | Some w \<Rightarrow>
          if readyState w = CONNECTING
          then closeSocket (handleConnectionError ''Connection timeout'' c) else c)"
| "runTask ExtendedBackoff now ctorError rnd c =
     (if \<not> isConnected c then connect now ctorError c else c)"
| "runTask ErrorRetry now ctorError rnd c =
     (if \<not> isConnected c \<and> reconnectAttempts c < maxReconnectAttempts c
         \<and> \<not> isCircuitBreakerActive c
      then handleReconnect now rnd c else c)"
| "runTask Reconnect now ctorError rnd c =
     (if \<not> isConnected c \<and> \<not> isCircuitBreakerActive c then connect now ctorError c else c)"
| "runTask Heartbeat now ctorError rnd c = c"
| "runTask DataTimeoutCheck now ctorError rnd c =
     (if isConnected c \<and> now - lastDataReceived c > 60000
      then closeSocket (handleConnectionError ''Data timeout - no price updates received'' c)
      else c)"
| "runTask ChangeStreamConnect now ctorError rnd c = connect now ctorError c"

text \<open>
  The host fires the pending timer with handle \<open>h\<close>: a timer that was cleared does
  nothing, a one-shot timer is no longer pending once it has fired.
\<close>

definition fireTimer :: "nat \<Rightarrow> int \<Rightarrow> string option \<Rightarrow> real \<Rightarrow> Client \<Rightarrow> Client" where
  "fireTimer h now ctorError rnd c =
     (case find (\<lambda>t. handle t = h) (timers c) of
        None \<Rightarrow> c
      | Some t \<Rightarrow>
          runTask (task t) now ctorError rnd (if periodic t then c else clearTimer h c))"

subsection \<open>The calls of \<^verbatim>\<open>handleReconnect\<close>\<close>

text \<open>
  \<^verbatim>\<open>handleReconnect\<close> is private. The class calls it in two places: the close handler,
  after its cleanup, when the close code is not 1000 and the circuit breaker is not
  active; and the retry timer of the error handler, when the client is not connected,
  attempts are left and the circuit breaker is not active. \<open>closeCleanup\<close> is the close
  handler up to that test; \<open>reconnectCalled c\<close> says that the class calls
  \<^verbatim>\<open>handleReconnect\<close> in state \<open>c\<close>.
\<close>

definition closeCleanup :: "Client \<Rightarrow> Client" where
  "closeCleanup c =
     notifyConnection False
       (stopDataTimeoutCheck (stopHeartbeat (clearConnectionTimeout
          ((socketBecomes CLOSED c)\<lparr>isConnecting := False\<rparr>))))"

inductive reconnectCalled :: "Client \<Rightarrow> bool" where
  fromClose:
    "code \<noteq> (1000 :: int) \<Longrightarrow> \<not> isCircuitBreakerActive (closeCleanup c)
       \<Longrightarrow> reconnectCalled (closeCleanup c)"
| fromRetry:
    "\<not> isConnected c \<Longrightarrow> reconnectAttempts c < maxReconnectAttempts c
       \<Longrightarrow> \<not> isCircuitBreakerActive c \<Longrightarrow> reconnectCalled c"

subsection \<open>The earlier revision (\<^verbatim>\<open>lib/websocket.ts\<close>)\<close>

text \<open>
  The earlier revision of the class has no circuit breaker, four endpoints, five
  attempts and shorter delays. Its \<^verbatim>\<open>handleReconnect\<close> and its message handler, on the
  same object.
\<close>

definition wsUrls_v1 :: "string list" where
  "wsUrls_v1 = [''wss://stream.binance.com:9443'', ''wss://stream.binance.com:443'',
                ''wss://data-stream.binance.vision'', ''wss://stream.binance.us:9443'']"

definition handleReconnect_v1 :: "real \<Rightarrow> Client \<Rightarrow> Client" where
  "handleReconnect_v1 rnd c =
     (if reconnectAttempts c < maxReconnectAttempts c then
        let c1 = c\<lparr>reconnectAttempts := Suc (reconnectAttempts c)\<rparr>;
            c2 = (if reconnectAttempts c1 > 2
                  then c1\<lparr>currentUrlIndex := (currentUrlIndex c1 + 1) mod length wsUrls_v1\<rparr>
                  else c1);
            baseDelay = min (1000 * 2 ^ (reconnectAttempts c2 - 1)) 30000;
            jitter = rnd * 1000
        in addTimer Reconnect (baseDelay + jitter) False c2
      else handleConnectionError ''Max reconnection attempts reached'' c)"

definition ws_onmessage_v1 :: "int \<Rightarrow> Inbound \<Rightarrow> Client \<Rightarrow> Client" where
  "ws_onmessage_v1 now inbound c =
     (let c1 = c\<lparr>lastDataReceived := now\<rparr>
      in case inbound of
           Unparsable err \<Rightarrow> handleConnectionError (''Message parsing error: '' @ err) c1
         | Json d \<Rightarrow>
             if msg_e d = ''kline'' then
               let c2 = (if onKlineUpdate c1 then emit (KlineUpdate d) c1 else c1)
               in (case msg_k d of
                     None \<Rightarrow> c2
                   | Some k \<Rightarrow>
                       if k_c k \<noteq> [] then
                         (if onTickerUpdate c2
                          then emit (TickerUpdate (syntheticTicker d k)) c2 else c2)
                       else c2)
             else c1)"


section \<open>The data orchestrator (\<^verbatim>\<open>hooks/useMarketData.ts\<close>)\<close>

subsection \<open>Numbers, collaborators and state\<close>

text \<open>
  A JavaScript number as the hook uses it: \<^verbatim>\<open>NaN\<close> or a finite value. Finite doubles
  are idealised as reals; nothing below depends on rounding.
\<close>

datatype JsNumber = NaN | Num real

text \<open>\<^verbatim>\<open>n !== 0\<close>.\<close>

definition nonZero :: "JsNumber \<Rightarrow> bool" where
  "nonZero n = (n \<noteq> Num 0)"

text \<open>Truthiness of the state variable \<^verbatim>\<open>currentPrice: number | null\<close>.\<close>

definition truthy :: "JsNumber option \<Rightarrow> bool" where
  "truthy p = (case p of None \<Rightarrow> False | Some NaN \<Rightarrow> False | Some (Num x) \<Rightarrow> x \<noteq> 0)"

text \<open>
  The functions the hook calls that are not among the sources, taken as parameters:
  the builtin \<^verbatim>\<open>parseFloat\<close>, \<^verbatim>\<open>AIAnalyzer.analyzeMarket\<close>,
  \<^verbatim>\<open>TechnicalAnalysis.calculateIndicatorArrays\<close> and \<^verbatim>\<open>generateMockData\<close>. They are
  taken not to throw. \<open>withinFivePercent p c\<close> is the answer of the host's double
  arithmetic to \<^verbatim>\<open>Math.abs(p - c) / c < 0.05\<close>, which the model does not compute: the
  rounding of the division decides it near the bound.
\<close>

record ('a, 'i) Host =
  parseFloat :: "string \<Rightarrow> JsNumber"
  withinFivePercent :: "real \<Rightarrow> real \<Rightarrow> bool"
  analyzeMarket :: "Observation list \<Rightarrow> 'a"
  calculateIndicatorArrays :: "Observation list \<Rightarrow> 'i"
  generateMockData :: "Observation list"

text \<open>The fields of the 24-hour ticker of the REST endpoint that the hook reads.\<close>

record TickerData =
  ticker_lastPrice :: string
  ticker_priceChange :: string
  ticker_priceChangePercent :: string

text \<open>
  An \<^verbatim>\<open>async\<close> call suspended at an \<^verbatim>\<open>await\<close>: who was called, what it waits for, the
  clock reading \<^verbatim>\<open>now\<close> taken by the fetch function it is in, and the values of the
  render its closure was made in (the callbacks read \<^verbatim>\<open>currentPrice\<close>,
  \<^verbatim>\<open>candleData\<close>, \<^verbatim>\<open>currentSymbol\<close> and \<^verbatim>\<open>currentTimeframe\<close> from their closure, not
  from the latest state).
\<close>

datatype Caller =
    InitializeData
  | MonitoringFetch
  | RefreshData
  | ChangeSymbol string
  | ChangeTimeframe string

datatype Await = AwaitDelay | AwaitTicker | AwaitKlines

record Suspended =
  caller :: Caller
  await :: Await
  callTime :: int
  seenPrice :: "JsNumber option"
  seenCandles :: "Observation list"
  seenSymbol :: string
  seenTimeframe :: string

text \<open>How an awaited operation ends: the delay elapses, or a request resolves or rejects
  (with the message of the error, if it is an \<^verbatim>\<open>Error\<close>).\<close>

datatype Outcome =
    Elapsed
  | TickerFetched TickerData
  | KlinesFetched "Observation list"
  | FetchFailed "string option"

text \<open>
  The state variables and refs of the hook, and the calls in flight. \<open>isConnectedState\<close>
  is the state variable \<^verbatim>\<open>isConnected\<close>.
\<close>

record ('a, 'i) MarketData =
  candleData :: "Observation list"
  analysis :: "'a option"
  indicatorArrays :: "'i option"
  isLoading :: bool
  error :: "string option"
  lastUpdate :: "int option"
  currentTimeframe :: string
  currentSymbol :: string
  isConnectedState :: bool
  currentPrice :: "JsNumber option"
  priceChange :: JsNumber
  priceChangePercent :: JsNumber
  tickerData :: "TickerData option"
  wsError :: "string option"
  connectionState :: string
  lastPriceUpdateTime :: int
  lastFetchTimeRef :: int
  lastPriceFetchRef :: int
  isRefreshingRef :: bool
  isChangingTimeframeRef :: bool
  isChangingSymbolRef :: bool
  lastSyncRef :: int
  isConnectingRef :: bool
  lastConnectionAttemptRef :: int
  pending :: "Suspended list"

text \<open>
  The request a suspended call has outstanding: \<^verbatim>\<open>fetch24hrTicker(currentSymbol)\<close> of
  \<^verbatim>\<open>fetchPriceData\<close> and \<^verbatim>\<open>fetchKlines(currentSymbol, intervalToUse, 100)\<close> of
  \<^verbatim>\<open>fetchData\<close>, where \<^verbatim>\<open>currentSymbol\<close> is the symbol of the closure and
  \<^verbatim>\<open>intervalToUse\<close> the interval passed (the new one by \<^verbatim>\<open>changeTimeframe\<close>, that of
  the closure by the others).
\<close>

datatype Request = Fetch24hrTicker string | FetchKlines string string nat

definition requestOf :: "Suspended \<Rightarrow> Request option" where
  "requestOf s =
     (case await s of
        AwaitDelay \<Rightarrow> None
      | AwaitTicker \<Rightarrow> Some (Fetch24hrTicker (seenSymbol s))
      | AwaitKlines \<Rightarrow>
          Some (FetchKlines (seenSymbol s)
                  (case caller s of ChangeTimeframe tf \<Rightarrow> tf | _ \<Rightarrow> seenTimeframe s) 100))"

text \<open>The closure of a callback made in the render that shows state \<open>h\<close>.\<close>

definition suspend :: "Caller \<Rightarrow> Await \<Rightarrow> int \<Rightarrow> ('a, 'i) MarketData \<Rightarrow> Suspended" where
  "suspend who what now h =
     \<lparr>caller = who, await = what, callTime = now, seenPrice = currentPrice h,
      seenCandles = candleData h, seenSymbol = currentSymbol h,
      seenTimeframe = currentTimeframe h\<rparr>"

text \<open>
  \<^verbatim>\<open>connectWebSocket\<close>, as far as the state of the hook goes: the part that runs at the
  call, the callback of its 100 ms timer (\<open>ok\<close> says that creating and connecting the
  client did not throw), and the cleanup of the effect that calls it. The client it
  disconnects and the client it creates are the objects of the previous section.
\<close>

definition connectWebSocket :: "int \<Rightarrow> ('a, 'i) MarketData \<Rightarrow> ('a, 'i) MarketData" where
  "connectWebSocket now h =
     (if now - lastConnectionAttemptRef h < 2000 then h
      else if isConnectingRef h then h
      else h\<lparr>isConnectingRef := True, lastConnectionAttemptRef := now\<rparr>)"

definition webSocketTimer :: "bool \<Rightarrow> ('a, 'i) MarketData \<Rightarrow> ('a, 'i) MarketData" where
  "webSocketTimer ok h =
     h\<lparr>connectionState := (if ok then ''Connecting'' else ''Error''),
       isConnectingRef := False\<rparr>"

definition effectCleanup :: "('a, 'i) MarketData \<Rightarrow> ('a, 'i) MarketData" where
  "effectCleanup h = h\<lparr>isConnectingRef := False\<rparr>"

text \<open>
  The state after mounting at clock reading \<open>now\<close>: the initial values of the state
  variables and refs, the connection effect's call of \<^verbatim>\<open>connectWebSocket\<close>, and the
  mount effect's \<^verbatim>\<open>initializeData\<close> waiting for the ticker.
\<close>

definition useMarketData :: "int \<Rightarrow> ('a, 'i) MarketData" where
  "useMarketData now =
     (let h = \<lparr>candleData = [], analysis = None, indicatorArrays = None, isLoading = True,
               error = None, lastUpdate = None, currentTimeframe = ''1d'',
               currentSymbol = ''BTCUSDT'', isConnectedState = False, currentPrice = None,
               priceChange = Num 0, priceChangePercent = Num 0, tickerData = None,
               wsError = None, connectionState = ''Not initialized'',
               lastPriceUpdateTime = now, lastFetchTimeRef = 0, lastPriceFetchRef = 0,
               isRefreshingRef = False, isChangingTimeframeRef = False,
               isChangingSymbolRef = False, lastSyncRef = 0, isConnectingRef = False,
               lastConnectionAttemptRef = 0, pending = []\<rparr>;
          h1 = connectWebSocket now h
      in h1\<lparr>pending := [suspend InitializeData AwaitTicker now h1]\<rparr>)"

subsection \<open>The fetch functions, from the point where their request settles\<close>

text \<open>\<^verbatim>\<open>fetchPriceData\<close> after \<^verbatim>\<open>fetch24hrTicker\<close> resolved, and its \<^verbatim>\<open>catch\<close> block.\<close>

definition priceFetched ::
  "('a, 'i) Host \<Rightarrow> int \<Rightarrow> TickerData \<Rightarrow> ('a, 'i) MarketData \<Rightarrow> ('a, 'i) MarketData" where
  "priceFetched H started tk h =
     h\<lparr>tickerData := Some tk,
       currentPrice := Some (parseFloat H (ticker_lastPrice tk)),
       priceChange := parseFloat H (ticker_priceChange tk),
       priceChangePercent := parseFloat H (ticker_priceChangePercent tk),
       lastPriceFetchRef := started\<rparr>"

definition priceFetchFailed :: "('a, 'i) MarketData \<Rightarrow> ('a, 'i) MarketData" where
  "priceFetchFailed h =
     h\<lparr>currentPrice := Some (Num 95000), priceChange := Num 0, priceChangePercent := Num 0\<rparr>"

text \<open>
  The update of the latest candle with the live price of the closure, when that price is
  truthy and within five percent of the candle's close.
\<close>

definition adjustLatest ::
  "('a, 'i) Host \<Rightarrow> JsNumber option \<Rightarrow> Observation list \<Rightarrow> Observation list" where
  "adjustLatest H p candles =
     (case p of
        Some (Num x) \<Rightarrow>
          if candles \<noteq> [] \<and> x \<noteq> 0 then
            let latest = last candles
            in if withinFivePercent H x (close latest)
               then butlast candles @
                      [latest\<lparr>high := max (high latest) x, low := min (low latest) x,
                              close := x\<rparr>]
               else candles
          else candles
      | _ \<Rightarrow> candles)"

text \<open>\<^verbatim>\<open>fetchData\<close> after \<^verbatim>\<open>fetchKlines\<close> resolved, with its \<^verbatim>\<open>finally\<close> block.\<close>

definition klinesFetched ::
  "('a, 'i) Host \<Rightarrow> Suspended \<Rightarrow> int \<Rightarrow> Observation list \<Rightarrow> ('a, 'i) MarketData
     \<Rightarrow> ('a, 'i) MarketData" where
  "klinesFetched H s now fetched h =
     (let candles = adjustLatest H (seenPrice s) fetched;
          h1 = h\<lparr>candleData := candles\<rparr>;
          h2 = (if candles \<noteq> [] \<and> \<not> truthy (seenPrice s)
                then h1\<lparr>currentPrice := Some (Num (close (last candles)))\<rparr> else h1);
          h3 = (if candles \<noteq> []
                then h2\<lparr>analysis := Some (analyzeMarket H candles),
                        indicatorArrays := Some (calculateIndicatorArrays H candles)\<rparr>
                else h2);
          h4 = h3\<lparr>lastFetchTimeRef := callTime s, lastUpdate := Some now\<rparr>
      in h4\<lparr>isLoading := False\<rparr>)"

text \<open>The \<^verbatim>\<open>catch\<close> block of \<^verbatim>\<open>fetchData\<close> (mock data), with its \<^verbatim>\<open>finally\<close> block.\<close>

definition klinesFailed ::
  "('a, 'i) Host \<Rightarrow> int \<Rightarrow> string option \<Rightarrow> ('a, 'i) MarketData \<Rightarrow> ('a, 'i) MarketData" where
  "klinesFailed H now msg h =
     (let h1 = h\<lparr>error := Some (case msg of Some m \<Rightarrow> m
                                  | None \<Rightarrow> ''Failed to fetch market data'')\<rparr>;
          mockCandles = generateMockData H;
          h2 = h1\<lparr>candleData := mockCandles\<rparr>;
          h3 = (if mockCandles \<noteq> []
                then h2\<lparr>analysis := Some (analyzeMarket H mockCandles),
                        indicatorArrays := Some (calculateIndicatorArrays H mockCandles)\<rparr>
                else h2);
          h4 = h3\<lparr>lastUpdate := Some now\<rparr>
      in h4\<lparr>isLoading := False\<rparr>)"

subsection \<open>The operations the hook returns\<close>

text \<open>
  Each operation is an \<^verbatim>\<open>async\<close> function: the definition named after it is the part
  that runs at the call, up to the first \<^verbatim>\<open>await\<close>; \<open>resume\<close> below runs the rest.
  All three call the fetch functions with \<^verbatim>\<open>force = true\<close>, which skips their cache
  test. The callback called is the one of the latest render, so its closure shows the
  state at the call.
\<close>

definition refreshData :: "int \<Rightarrow> ('a, 'i) MarketData \<Rightarrow> ('a, 'i) MarketData" where
  "refreshData now h =
     (if isRefreshingRef h then h
      else
        let h1 = h\<lparr>isRefreshingRef := True, isLoading := True, error := None\<rparr>
        in h1\<lparr>pending := pending h1 @ [suspend RefreshData AwaitTicker now h]\<rparr>)"

definition changeTimeframe :: "int \<Rightarrow> string \<Rightarrow> ('a, 'i) MarketData \<Rightarrow> ('a, 'i) MarketData" where
  "changeTimeframe now newTimeframe h =
     (if newTimeframe = currentTimeframe h then h
      else if isChangingTimeframeRef h then h
      else
        let h1 = h\<lparr>isChangingTimeframeRef := True, currentTimeframe := newTimeframe,
                   isLoading := True, error := None\<rparr>;
            h2 = h1\<lparr>error := None\<rparr>
        in h2\<lparr>pending := pending h2 @ [suspend (ChangeTimeframe newTimeframe) AwaitKlines now h]\<rparr>)"

definition changeSymbol :: "int \<Rightarrow> string \<Rightarrow> ('a, 'i) MarketData \<Rightarrow> ('a, 'i) MarketData" where
  "changeSymbol now newSymbol h =
     (if newSymbol = currentSymbol h then h
      else if isChangingSymbolRef h then h
      else
        let h1 = h\<lparr>isChangingSymbolRef := True, currentSymbol := newSymbol, isLoading := True,
                   error := None\<rparr>;
            h2 = h1\<lparr>isConnectedState := False, connectionState := ''Connecting''\<rparr>;
            h3 = h2\<lparr>candleData := [], analysis := None, indicatorArrays := None,
                    currentPrice := None, priceChange := Num 0, priceChangePercent := Num 0,
                    tickerData := None\<rparr>
        in h3\<lparr>pending := pending h3 @ [suspend (ChangeSymbol newSymbol) AwaitDelay now h]\<rparr>)"

text \<open>The monitoring interval's callback (every two minutes).\<close>

definition monitoringTick :: "int \<Rightarrow> ('a, 'i) MarketData \<Rightarrow> ('a, 'i) MarketData" where
  "monitoringTick now h =
     (if now - lastPriceUpdateTime h > 120000 \<and> isConnectedState h
      then h\<lparr>pending := pending h @ [suspend MonitoringFetch AwaitTicker now h]\<rparr>
      else h)"

text \<open>What remains of the caller once its last fetch has settled.\<close>

definition finish ::
  "('a, 'i) Host \<Rightarrow> Suspended \<Rightarrow> ('a, 'i) MarketData \<Rightarrow> ('a, 'i) MarketData" where
  "finish H s h =
     (case caller s of
        InitializeData \<Rightarrow> h
      | MonitoringFetch \<Rightarrow> h
      | RefreshData \<Rightarrow>
          (let h1 = (if seenCandles s \<noteq> []
                     then h\<lparr>analysis := Some (analyzeMarket H (seenCandles s)),
                            indicatorArrays :=
                              Some (calculateIndicatorArrays H (seenCandles s))\<rparr>
                     else h)
           in h1\<lparr>isRefreshingRef := False, isLoading := False\<rparr>)
      | ChangeSymbol n \<Rightarrow> h\<lparr>isChangingSymbolRef := False, isLoading := False\<rparr>
      | ChangeTimeframe n \<Rightarrow> h\<lparr>isChangingTimeframeRef := False, isLoading := False\<rparr>)"

text \<open>
  A suspended call runs on from its \<^verbatim>\<open>await\<close> with the outcome of what it waited for,
  at clock reading \<open>now\<close>: the result is the state, and the call's next suspension if it
  is not finished. An outcome that is not the one awaited leaves everything as it is.
\<close>

definition advance ::
  "('a, 'i) Host \<Rightarrow> Suspended \<Rightarrow> Outcome \<Rightarrow> int \<Rightarrow> ('a, 'i) MarketData
     \<Rightarrow> Suspended option \<times> ('a, 'i) MarketData" where
  "advance H s out now h =
     (case (await s, out) of
        (AwaitDelay, Elapsed) \<Rightarrow> (Some (s\<lparr>await := AwaitTicker, callTime := now\<rparr>), h)
      | (AwaitTicker, TickerFetched tk) \<Rightarrow>
          (let h1 = priceFetched H (callTime s) tk h
           in if caller s = MonitoringFetch then (None, h1)
              else (Some (s\<lparr>await := AwaitKlines, callTime := now\<rparr>), h1\<lparr>error := None\<rparr>))
      | (AwaitTicker, FetchFailed msg) \<Rightarrow>
          (let h1 = priceFetchFailed h
           in if caller s = MonitoringFetch then (None, h1)
              else (Some (s\<lparr>await := AwaitKlines, callTime := now\<rparr>), h1\<lparr>error := None\<rparr>))
      | (AwaitKlines, KlinesFetched cs) \<Rightarrow> (None, finish H s (klinesFetched H s now cs h))
      | (AwaitKlines, FetchFailed msg) \<Rightarrow> (None, finish H s (klinesFailed H now msg h))
      | _ \<Rightarrow> (Some s, h))"

text \<open>The event loop resumes the \<open>i\<close>-th call in flight.\<close>

definition resume ::
  "('a, 'i) Host \<Rightarrow> nat \<Rightarrow> Outcome \<Rightarrow> int \<Rightarrow> ('a, 'i) MarketData \<Rightarrow> ('a, 'i) MarketData" where
  "resume H i out now h =
     (if i < length (pending h) then
        (case advance H (pending h ! i) out now h of
           (Some s', h') \<Rightarrow> h'\<lparr>pending := (pending h)[i := s']\<rparr>
         | (None, h') \<Rightarrow> h'\<lparr>pending := take i (pending h) @ drop (Suc i) (pending h)\<rparr>)
      else h)"

subsection \<open>The listeners the hook registers on the streaming client\<close>

text \<open>
  The listeners are made once (\<^verbatim>\<open>useCallback\<close> with no dependencies), so the
  \<^verbatim>\<open>isConnected\<close> they read is that of the first render, \<^verbatim>\<open>false\<close>; \<open>wsConnected\<close> is
  what \<^verbatim>\<open>wsRef.current?.isConnected()\<close> answers.
\<close>

definition syncConnection :: "bool \<Rightarrow> int \<Rightarrow> ('a, 'i) MarketData \<Rightarrow> ('a, 'i) MarketData" where
  "syncConnection wsConnected now h =
     (if now - lastSyncRef h > 5000 then
        let h1 = h\<lparr>lastSyncRef := now\<rparr>
        in if wsConnected
           then h1\<lparr>isConnectedState := True, connectionState := ''Connected''\<rparr> else h1
      else h)"

definition stableHandleKlineUpdate ::
  "('a, 'i) Host \<Rightarrow> bool \<Rightarrow> int \<Rightarrow> KlinePayload \<Rightarrow> ('a, 'i) MarketData \<Rightarrow> ('a, 'i) MarketData" where
  "stableHandleKlineUpdate H wsConnected now k h =
     (let h1 = syncConnection wsConnected now h
      in h1\<lparr>currentPrice := Some (parseFloat H (k_c k)), lastUpdate := Some now,
            lastPriceUpdateTime := now\<rparr>)"

definition stableHandleTickerUpdate ::
  "('a, 'i) Host \<Rightarrow> bool \<Rightarrow> int \<Rightarrow> WebSocketTickerData \<Rightarrow> ('a, 'i) MarketData
     \<Rightarrow> ('a, 'i) MarketData" where
  "stableHandleTickerUpdate H wsConnected now d h =
     (let price = parseFloat H (tk_c d);
          h1 = syncConnection wsConnected now h;
          h2 = h1\<lparr>currentPrice := Some price, lastUpdate := Some now,
                 lastPriceUpdateTime := now\<rparr>
      in if nonZero (parseFloat H (tk_p d)) \<or> nonZero (parseFloat H (tk_P d))
         then h2\<lparr>priceChange := parseFloat H (tk_p d),
                 priceChangePercent := parseFloat H (tk_P d)\<rparr>
         else h2)"

definition stableHandleConnectionChange ::
  "bool \<Rightarrow> ('a, 'i) MarketData \<Rightarrow> ('a, 'i) MarketData" where
  "stableHandleConnectionChange conn h =
     h\<lparr>isConnectedState := conn,
       connectionState := (if conn then ''Connected'' else ''Disconnected'')\<rparr>"

text \<open>The error listener, and the timer that clears the error after ten seconds.\<close>

definition stableHandleWebSocketError ::
  "string \<Rightarrow> ('a, 'i) MarketData \<Rightarrow> ('a, 'i) MarketData" where
  "stableHandleWebSocketError msg h = h\<lparr>wsError := Some msg\<rparr>"

definition clearWsError :: "('a, 'i) MarketData \<Rightarrow> ('a, 'i) MarketData" where
  "clearWsError h = h\<lparr>wsError := None\<rparr>"

text \<open>The effect that re-runs the analysis when \<^verbatim>\<open>candleData\<close> has changed.\<close>

definition reanalyse :: "('a, 'i) Host \<Rightarrow> ('a, 'i) MarketData \<Rightarrow> ('a, 'i) MarketData" where
  "reanalyse H h =
     (if candleData h \<noteq> []
      then h\<lparr>analysis := Some (analyzeMarket H (candleData h)),
             indicatorArrays := Some (calculateIndicatorArrays H (candleData h))\<rparr>
      else h)"

text \<open>The states the hook can be in: mounted, then any sequence of the events above.\<close>

inductive reachable :: "('a, 'i) Host \<Rightarrow> ('a, 'i) MarketData \<Rightarrow> bool" for H where
  mounted: "reachable H (useMarketData now)"
| refresh: "reachable H h \<Longrightarrow> reachable H (refreshData now h)"
| timeframe: "reachable H h \<Longrightarrow> reachable H (changeTimeframe now tf h)"
| symbol: "reachable H h \<Longrightarrow> reachable H (changeSymbol now sy h)"
| monitoring: "reachable H h \<Longrightarrow> reachable H (monitoringTick now h)"
| resumed: "reachable H h \<Longrightarrow> reachable H (resume H i out now h)"
| kline: "reachable H h \<Longrightarrow> reachable H (stableHandleKlineUpdate H b now k h)"
| ticker: "reachable H h \<Longrightarrow> reachable H (stableHandleTickerUpdate H b now d h)"
| connection: "reachable H h \<Longrightarrow> reachable H (stableHandleConnectionChange b h)"
| wsErrored: "reachable H h \<Longrightarrow> reachable H (stableHandleWebSocketError msg h)"
| wsErrorCleared: "reachable H h \<Longrightarrow> reachable H (clearWsError h)"
| reanalysed: "reachable H h \<Longrightarrow> reachable H (reanalyse H h)"
| connecting: "reachable H h \<Longrightarrow> reachable H (connectWebSocket now h)"
| connectTimer: "reachable H h \<Longrightarrow> reachable H (webSocketTimer b h)"
| cleanedUp: "reachable H h \<Longrightarrow> reachable H (effectCleanup h)"

text \<open>
  The refreshes in flight, the requests they have outstanding, and the requests all calls
  in flight have outstanding.
\<close>

definition refreshesInFlight :: "('a, 'i) MarketData \<Rightarrow> nat" where
  "refreshesInFlight h = length (filter (\<lambda>s. caller s = RefreshData) (pending h))"

definition refreshRequests :: "('a, 'i) MarketData \<Rightarrow> Request list" where
  "refreshRequests h =
     List.map_filter requestOf (filter (\<lambda>s. caller s = RefreshData) (pending h))"

definition requestsInFlight :: "('a, 'i) MarketData \<Rightarrow> Request list" where
  "requestsInFlight h = List.map_filter requestOf (pending h)"

text \<open>The changes of symbol and of interval in flight.\<close>

fun isSymbolChange :: "Caller \<Rightarrow> bool" where
  "isSymbolChange (ChangeSymbol n) = True"
| "isSymbolChange _ = False"

fun isTimeframeChange :: "Caller \<Rightarrow> bool" where
  "isTimeframeChange (ChangeTimeframe n) = True"
| "isTimeframeChange _ = False"

definition symbolChangesInFlight :: "('a, 'i) MarketData \<Rightarrow> nat" where
  "symbolChangesInFlight h = length (filter (\<lambda>s. isSymbolChange (caller s)) (pending h))"

definition timeframeChangesInFlight :: "('a, 'i) MarketData \<Rightarrow> nat" where
  "timeframeChangesInFlight h =
     length (filter (\<lambda>s. isTimeframeChange (caller s)) (pending h))"

text \<open>
  A reader of decimal literals, standing for \<^verbatim>\<open>parseFloat\<close> in the examples: leading
  blanks, an optional sign, digits, and optionally a point and more digits; what follows
  is ignored, and a string with no digit there is \<^verbatim>\<open>NaN\<close>. Exponents and the word
  \<^verbatim>\<open>Infinity\<close> are not read.
\<close>

definition digitValue :: "char \<Rightarrow> nat" where
  "digitValue ch = of_char ch - 48"

definition isDigit :: "char \<Rightarrow> bool" where
  "isDigit ch = (48 \<le> (of_char ch :: nat) \<and> (of_char ch :: nat) \<le> 57)"

definition digitsValue :: "string \<Rightarrow> nat" where
  "digitsValue ds = foldl (\<lambda>acc ch. 10 * acc + digitValue ch) 0 ds"

definition parseUnsigned :: "string \<Rightarrow> real option" where
  "parseUnsigned str =
     (let whole = takeWhile isDigit str;
          rest = dropWhile isDigit str;
          frac = (case rest of
                    [] \<Rightarrow> []
                  | ch # after \<Rightarrow> if ch = CHR ''.'' then takeWhile isDigit after else [])
      in if whole = [] \<and> frac = [] then None
         else Some (real (digitsValue whole) + real (digitsValue frac) / 10 ^ length frac))"

definition parseDecimal :: "string \<Rightarrow> JsNumber" where
  "parseDecimal str =
     (case dropWhile (\<lambda>ch. ch = CHR '' '') str of
        [] \<Rightarrow> NaN
      | ch # rest \<Rightarrow>
          if ch = CHR ''-''
          then (case parseUnsigned rest of None \<Rightarrow> NaN | Some x \<Rightarrow> Num (- x))
          else if ch = CHR ''+''
          then (case parseUnsigned rest of None \<Rightarrow> NaN | Some x \<Rightarrow> Num x)
          else (case parseUnsigned (ch # rest) of None \<Rightarrow> NaN | Some x \<Rightarrow> Num x))"


section \<open>The freshness cache (\<^verbatim>\<open>getCachedData\<close> of the market-data route)\<close>

record 'v CacheEntry =
  data :: 'v
  timestamp :: int
  ttl :: int

type_synonym 'v Cache = "string \<Rightarrow> 'v CacheEntry option"

text \<open>\<^verbatim>\<open>cleanupCache\<close> at clock reading \<open>now\<close>: every entry older than its TTL is deleted.\<close>

definition cleanupCache :: "int \<Rightarrow> 'v Cache \<Rightarrow> 'v Cache" where
  "cleanupCache now cache =
     (\<lambda>k. case cache k of
            None \<Rightarrow> None
          | Some e \<Rightarrow> if now - timestamp e > ttl e then None else Some e)"

text \<open>
  What a call of \<^verbatim>\<open>getCachedData\<close> comes to: the value the promise resolves to or
  the error it rejects with, whether \<^verbatim>\<open>fetchFn\<close> was called, and the cache afterwards.
\<close>

record 'v Served =
  returned :: "string + 'v"
  fetchCalled :: bool
  cacheAfter :: "'v Cache"

text \<open>
  \<^verbatim>\<open>getCachedData(key, fetchFn, ttl)\<close>. \<open>sweep\<close> says whether \<^verbatim>\<open>Math.random() < 0.1\<close>
  held, \<open>now\<close> is the clock when the call starts, \<open>later\<close> the clock when the fetch has
  resolved, and \<open>fetchFn\<close> is what the fetch function comes to if it is called: \<open>Inr\<close> a
  value, or \<open>Inl\<close> the error it throws. \<open>fetchFresh\<close> is the \<^verbatim>\<open>try\<close> statement, with
  the entry \<^verbatim>\<open>cached\<close> read before it.
\<close>

definition fetchFresh ::
  "int \<Rightarrow> string \<Rightarrow> string + 'v \<Rightarrow> int \<Rightarrow> 'v CacheEntry option \<Rightarrow> 'v Cache \<Rightarrow> 'v Served" where
  "fetchFresh later key fetchFn t cached cache =
     (case fetchFn of
        Inr d \<Rightarrow>
          \<lparr>returned = Inr d, fetchCalled = True,
           cacheAfter = cache(key \<mapsto> \<lparr>data = d, timestamp = later, ttl = t\<rparr>)\<rparr>
      | Inl err \<Rightarrow>
          (case cached of
             Some e \<Rightarrow> \<lparr>returned = Inr (data e), fetchCalled = True, cacheAfter = cache\<rparr>
           | None \<Rightarrow> \<lparr>returned = Inl err, fetchCalled = True, cacheAfter = cache\<rparr>))"

definition getCachedData ::
  "bool \<Rightarrow> int \<Rightarrow> int \<Rightarrow> string \<Rightarrow> string + 'v \<Rightarrow> int \<Rightarrow> 'v Cache \<Rightarrow> 'v Served" where
  "getCachedData sweep now later key fetchFn t cache =
     (let cache1 = (if sweep then cleanupCache now cache else cache);
          cached = cache1 key
      in case cached of
           Some e \<Rightarrow>
             if now - timestamp e < ttl e
             then \<lparr>returned = Inr (data e), fetchCalled = False, cacheAfter = cache1\<rparr>
             else fetchFresh later key fetchFn t cached cache1
         | None \<Rightarrow> fetchFresh later key fetchFn t cached cache1)"


subsection \<open>The calls the route makes\<close>














section \<open>Observations on the model and example states\<close>

text \<open>The ticker callbacks among the effects of a client, in order.\<close>

fun tickerOf :: "Effect \<Rightarrow> WebSocketTickerData option" where
  "tickerOf (TickerUpdate d) = Some d"
| "tickerOf _ = None"

definition tickerCalls :: "Client \<Rightarrow> WebSocketTickerData list" where
  "tickerCalls c = List.map_filter tickerOf (effects c)"

text \<open>
  Each in-flight flag is up exactly when one call of its operation is in flight, and none
  is in flight otherwise.
\<close>

definition flagged :: "('a, 'i) MarketData \<Rightarrow> bool" where
  "flagged h =
     (refreshesInFlight h = (if isRefreshingRef h then 1 else 0) \<and>
      symbolChangesInFlight h = (if isChangingSymbolRef h then 1 else 0) \<and>
      timeframeChangesInFlight h = (if isChangingTimeframeRef h then 1 else 0))"

text \<open>A client with all four listeners registered.\<close>

definition listeningClient :: Client where
  "listeningClient =
     onError (onConnection (onTicker (onKline (createBinanceWebSocket ''BTCUSDT'' ''1m''))))"

text \<open>
  A client that connected at 10 s, lost its connection abnormally at 20 s (which set a
  reconnect timer of 3 s, the jitter being 0) and was disconnected by its owner.
\<close>

definition abandonedClient :: Client where
  "abandonedClient =
     (let c1 = ws_onopen 10100 (connect 10000 None listeningClient);
          c2 = ws_onclose 1006 20000 0 c1
      in disconnect c2)"

text \<open>
  A client whose three connection attempts each ended in an error event followed by an
  abnormal close, every timer fired when due (jitter 0): the third error, at 19150 ms,
  trips the circuit breaker.
\<close>

definition trippedClient :: Client where
  "trippedClient =
     (let c1 = ws_onclose 1006 10060 0
                 (ws_onerror ''Connection error: error'' 10050 (connect 10000 None listeningClient));
          c2 = ws_onclose 1006 13110 0
                 (ws_onerror ''Connection error: error'' 13100 (fireTimer 3 13060 None 0 c1));
          c3 = fireTimer 5 18100 None 0 (fireTimer 2 15050 None 0 c2);
          c4 = ws_onclose 1006 19160 0
                 (ws_onerror ''Connection error: error'' 19150 (fireTimer 6 19110 None 0 c3))
      in fireTimer 7 27050 None 0 c4)"

text \<open>
  A client whose connections closed abnormally three times in a row without an error
  event, every reconnect timer fired when due (jitter 0), now in its fourth connection
  attempt with the attempts used up; and the same client when that connection closes
  abnormally too.
\<close>

definition lastAttemptClient :: Client where
  "lastAttemptClient =
     (let c1 = ws_onclose 1006 10500 0 (connect 10000 None listeningClient);
          c2 = ws_onclose 1006 14000 0 (fireTimer 2 13500 None 0 c1);
          c3 = ws_onclose 1006 20500 0 (fireTimer 4 20000 None 0 c2)
      in fireTimer 6 32500 None 0 c3)"

definition exhaustedClient :: Client where
  "exhaustedClient = ws_onclose 1006 33000 0 lastAttemptClient"

text \<open>Collaborators for the examples, and a ticker as the client makes it up.\<close>

definition exampleHost :: "(nat, nat) Host" where
  "exampleHost =
     \<lparr>parseFloat = parseDecimal,
      withinFivePercent = (\<lambda>p c. c \<noteq> 0 \<and> \<bar>p - c\<bar> / c < 0.05),
      analyzeMarket = length, calculateIndicatorArrays = length, generateMockData = []\<rparr>"

definition sentinelTicker :: WebSocketTickerData where
  "sentinelTicker =
     \<lparr>tk_e = ''24hrTicker'', tk_E = 1700000001000, tk_s = ''BTCUSDT'', tk_c = ''43010.55'',
      tk_o = ''43000.10'', tk_h = ''43020.00'', tk_l = ''42990.00'', tk_P = ''0.00'',
      tk_p = ''0.00''\<rparr>"

definition exampleCandle :: Observation where
  "exampleCandle =
     \<lparr>time = 1700000000, open = 43000, high = 43100, low = 42900, close = 43050,
      volume = 12\<rparr>"

definition exampleTicker :: TickerData where
  "exampleTicker =
     \<lparr>ticker_lastPrice = ''43050.00'', ticker_priceChange = ''150.25'',
      ticker_priceChangePercent = ''1.42''\<rparr>"

text \<open>
  The hook mounted at 1700000000000 ms for BTCUSDT, once the ticker request and the kline
  request of the mount effect have resolved, the latter with one BTCUSDT candle.
\<close>

definition loadedHook :: "(nat, nat) MarketData" where
  "loadedHook =
     resume exampleHost 0 (KlinesFetched [exampleCandle]) 1700000000500
       (resume exampleHost 0 (TickerFetched exampleTicker) 1700000000200
          (useMarketData 1700000000000))"

text \<open>
  A minute later the user selects ETHUSDT: the hook after the call, when the 500 ms
  delay has elapsed, when the ticker request then outstanding has resolved, and when the
  kline request then outstanding has resolved.
\<close>

definition switchingHook :: "(nat, nat) MarketData" where
  "switchingHook = changeSymbol 1700000060000 ''ETHUSDT'' loadedHook"

definition switchingFetchesPrice :: "(nat, nat) MarketData" where
  "switchingFetchesPrice = resume exampleHost 0 Elapsed 1700000060500 switchingHook"

definition switchingFetchesKlines :: "(nat, nat) MarketData" where
  "switchingFetchesKlines =
     resume exampleHost 0 (TickerFetched exampleTicker) 1700000060700 switchingFetchesPrice"

definition switchedHook :: "(nat, nat) MarketData" where
  "switchedHook =
     resume exampleHost 0 (KlinesFetched [exampleCandle]) 1700000060900 switchingFetchesKlines"

text \<open>The user refreshes 300 ms after mounting, while the mount effect still fetches.\<close>

definition earlyRefresh :: "(nat, nat) MarketData" where
  "earlyRefresh = refreshData 1700000000300 (useMarketData 1700000000000)"

text \<open>A cache whose only entry was stored at time 0 with a TTL of five minutes.\<close>

definition staleCache :: "nat Cache" where
  "staleCache = Map.empty(''market-sentiment'' \<mapsto> \<lparr>data = 42, timestamp = 0, ttl = 300000\<rparr>)"


section \<open>Provider selection: results\<close>

lemma find_createProvider:
  "find (\<lambda>p. getName p = t) (getAllProviders e) = Some (createProvider e t)"
  by (cases t) (simp_all add: getAllProviders_def Let_def)

lemma priorityScan_getAllProviders:
  "priorityScan (getAllProviders e) ts = find (available e) ts"
  by (induction ts) (simp_all add: find_createProvider available_def)

lemma find_available_None:
  assumes "find (available e) priorityOrder = None"
  shows "find isAvailable (getAllProviders e) = None"
proof -
  have "\<not> available e t" for t
    using assms by (cases t) (auto simp: priorityOrder_def split: if_splits)
  then have "\<not> isAvailable (createProvider e t)" for t
    by (simp add: available_def)
  then show ?thesis
    by (auto simp: find_None_iff getAllProviders_def simp del: createProvider.simps)
qed

lemma getDefaultProvider_firstAvailable:
  "getDefaultProvider e = firstAvailable e"
proof -
  have scan: "getDefaultProvider e =
      (case find (available e) priorityOrder of
         Some t \<Rightarrow> t
       | None \<Rightarrow> (case find isAvailable (getAllProviders e) of
                     Some p \<Rightarrow> getName p | None \<Rightarrow> groq))"
    unfolding getDefaultProvider_def defaultAmong_def priorityScan_getAllProviders ..
  show ?thesis
  proof (cases "find (available e) priorityOrder")
    case None
    with find_available_None [OF None] scan show ?thesis
      by (simp add: firstAvailable_def priorityOrder_def split: if_splits)
  next
    case (Some t)
    with scan show ?thesis
      by (simp add: firstAvailable_def priorityOrder_def split: if_splits)
  qed
qed

text \<open>The membership test of the code accepts exactly the five names, each as its type.\<close>

lemma providerOfName_nameOf: "providerOfName (nameOf t) = Some t"
  by (cases t) (simp_all add: providerOfName_def)

lemma providerOfName_Some: "providerOfName s = Some t \<Longrightarrow> s = nameOf t"
  by (auto simp: providerOfName_def split: if_splits)

text \<open>
  C10. The provider \<^verbatim>\<open>getPreferredProvider\<close> returns depends on the environment only
  through the value of \<^verbatim>\<open>AI_PROVIDER\<close> and the providers' availability: when the
  variable is the name of a provider and that provider is available, that provider; in
  every other case the first available provider in the order groq, ollama, huggingface,
  claude, openai, and groq when none is available.
\<close>

theorem getPreferredProvider_selection:
  "(\<forall>t. e ''AI_PROVIDER'' = Some (nameOf t) \<and> available e t
        \<longrightarrow> getPreferredProvider e = t) \<and>
   ((\<forall>t. e ''AI_PROVIDER'' = Some (nameOf t) \<longrightarrow> \<not> available e t)
        \<longrightarrow> getPreferredProvider e = firstAvailable e)"
proof (intro conjI allI impI)
  fix t
  assume "e ''AI_PROVIDER'' = Some (nameOf t) \<and> available e t"
  then show "getPreferredProvider e = t"
    by (simp add: getPreferredProvider_def getEnvValue_def providerOfName_nameOf
        available_def)
next
  assume none: "\<forall>t. e ''AI_PROVIDER'' = Some (nameOf t) \<longrightarrow> \<not> available e t"
  show "getPreferredProvider e = firstAvailable e"
  proof (cases "e ''AI_PROVIDER''")
    case None
    then show ?thesis
      by (simp add: getPreferredProvider_def getEnvValue_def
          getDefaultProvider_firstAvailable)
  next
    case (Some s)
    show ?thesis
    proof (cases "providerOfName s")
      case None
      with Some show ?thesis
        by (simp add: getPreferredProvider_def getEnvValue_def
            getDefaultProvider_firstAvailable)
    next
      case (Some t)
      then have "s = nameOf t" by (rule providerOfName_Some)
      with none \<open>e ''AI_PROVIDER'' = Some s\<close> have "\<not> available e t" by simp
      with Some \<open>e ''AI_PROVIDER'' = Some s\<close> show ?thesis
        by (simp add: getPreferredProvider_def getEnvValue_def available_def
            getDefaultProvider_firstAvailable)
    qed
  qed
qed

lemma openaiPreferred_available:
  "available openaiPreferred openai \<and> available openaiPreferred groq"
  by (simp add: available_def isAvailable_def openaiPreferred_def getEnvValue_def
      orEmpty_def Let_def)

lemma openaiWithoutKey_available:
  "\<not> available openaiWithoutKey openai \<and> available openaiWithoutKey groq"
  by (simp add: available_def isAvailable_def openaiWithoutKey_def getEnvValue_def
      orEmpty_def Let_def)

theorem getPreferredProvider_selection_witness:
  "getPreferredProvider openaiPreferred = openai \<and>
   getPreferredProvider openaiWithoutKey = groq \<and>
   getPreferredProvider unknownPreferred = ollama"
proof -
  have pref: "openaiPreferred ''AI_PROVIDER'' = Some (nameOf openai)"
    by (simp add: openaiPreferred_def)
  have a: "getPreferredProvider openaiPreferred = openai"
    using getPreferredProvider_selection [of openaiPreferred] pref openaiPreferred_available
    by blast
  have "\<forall>t. openaiWithoutKey ''AI_PROVIDER'' = Some (nameOf t)
           \<longrightarrow> \<not> available openaiWithoutKey t"
  proof (intro allI impI)
    fix t
    assume "openaiWithoutKey ''AI_PROVIDER'' = Some (nameOf t)"
    then have "t = openai" by (cases t) (simp_all add: openaiWithoutKey_def)
    with openaiWithoutKey_available show "\<not> available openaiWithoutKey t" by simp
  qed
  then have "getPreferredProvider openaiWithoutKey = firstAvailable openaiWithoutKey"
    using getPreferredProvider_selection [of openaiWithoutKey] by blast
  then have b: "getPreferredProvider openaiWithoutKey = groq"
    using openaiWithoutKey_available by (simp add: firstAvailable_def)
  have "\<forall>t. unknownPreferred ''AI_PROVIDER'' = Some (nameOf t)
           \<longrightarrow> \<not> available unknownPreferred t"
  proof (intro allI impI)
    fix t
    assume "unknownPreferred ''AI_PROVIDER'' = Some (nameOf t)"
    then show "\<not> available unknownPreferred t"
      by (cases t) (simp_all add: unknownPreferred_def)
  qed
  then have "getPreferredProvider unknownPreferred = firstAvailable unknownPreferred"
    using getPreferredProvider_selection [of unknownPreferred] by blast
  moreover have "\<not> available unknownPreferred groq \<and> available unknownPreferred ollama"
    by (simp add: available_def isAvailable_def unknownPreferred_def getEnvValue_def
        orEmpty_def)
  ultimately have c: "getPreferredProvider unknownPreferred = ollama"
    by (simp add: firstAvailable_def)
  from a b c show ?thesis by simp
qed

text \<open>Ollama needs no key, so some provider is always available to the factory.\<close>

lemma ollama_always_available: "available e ollama"
  by (simp add: available_def isAvailable_def)


section \<open>Observation ordering: results\<close>

lemma times_dedupeLast: "set (map time (dedupeLast xs)) = set (map time xs)"
  by (induction xs) auto

lemma distinct_dedupeLast: "distinct (map time (dedupeLast xs))"
  by (induction xs) (auto simp: times_dedupeLast [simplified])

lemma find_snoc:
  "find P (ys @ [x]) =
     (case find P ys of Some y \<Rightarrow> Some y | None \<Rightarrow> if P x then Some x else None)"
  by (induction ys) auto

lemma find_dedupeLast:
  "find (\<lambda>x. time x = t) (dedupeLast xs) = find (\<lambda>x. time x = t) (rev xs)"
proof (induction xs)
  case Nil
  then show ?case by simp
next
  case (Cons x xs)
  show ?case
  proof (cases "time x \<in> set (map time xs)")
    case True
    then have "time x = t \<Longrightarrow> find (\<lambda>x. time x = t) (rev xs) \<noteq> None"
      by (auto simp: find_None_iff)
    with True Cons show ?thesis
      by (auto simp: find_snoc split: option.splits)
  next
    case False
    then have "time x = t \<Longrightarrow> find (\<lambda>x. time x = t) (rev xs) = None"
      by (force simp: find_None_iff image_iff)
    with False Cons show ?thesis
      by (auto simp: find_snoc split: option.splits)
  qed
qed

text \<open>Where keys are distinct, the entry found for a key does not depend on the order.\<close>

lemma find_unique_key:
  assumes "distinct (map f ys)" "set zs = set ys"
  shows "find (\<lambda>x. f x = t) zs = find (\<lambda>x. f x = t) ys"
proof (cases "find (\<lambda>x. f x = t) ys")
  case None
  then have "find (\<lambda>x. f x = t) zs = None"
    using assms(2) by (auto simp: find_None_iff)
  with None show ?thesis by simp
next
  case (Some y)
  then have y: "y \<in> set ys" "f y = t"
    by (auto simp: find_Some_iff)
  from assms(1) have inj: "inj_on f (set ys)"
    by (simp add: distinct_map)
  obtain z where z: "find (\<lambda>x. f x = t) zs = Some z"
    using y assms(2) by (cases "find (\<lambda>x. f x = t) zs") (auto simp: find_None_iff)
  then have "z \<in> set ys" "f z = t"
    using assms(2) by (auto simp: find_Some_iff)
  with y inj have "z = y" by (auto dest: inj_onD)
  with z Some show ?thesis by simp
qed

text \<open>
  C9. Whatever the order of the input and however many entries share a time, the output
  of the dedup/sort stage is ordered by time, holds no two entries with the same time,
  and holds for each time of the input exactly the entry received last for it.
\<close>

theorem dedupSort_ordered:
  "sorted (map time (dedupSort xs)) \<and> distinct (map time (dedupSort xs)) \<and>
   (\<forall>t. find (\<lambda>x. time x = t) (dedupSort xs) = lastReceived xs t)"
proof -
  have d: "distinct (map time (dedupeLast xs))" by (rule distinct_dedupeLast)
  then have "distinct (map time (dedupSort xs))"
    by (simp add: dedupSort_def distinct_map)
  moreover have "find (\<lambda>x. time x = t) (dedupSort xs) = lastReceived xs t" for t
    using find_unique_key [OF d, of "dedupSort xs" t]
    by (simp add: dedupSort_def lastReceived_def find_dedupeLast)
  ultimately show ?thesis by (simp add: dedupSort_def)
qed


section \<open>The streaming client: results\<close>

subsection \<open>The ticker made up from a kline event\<close>

lemma tickerCalls_emit:
  "tickerCalls (emit x c) = tickerCalls c @ (case tickerOf x of None \<Rightarrow> [] | Some d \<Rightarrow> [d])"
  by (simp add: tickerCalls_def emit_def map_filter_def split: option.splits)

lemma tickerCalls_lastDataReceived [simp]:
  "tickerCalls (c\<lparr>lastDataReceived := t\<rparr>) = tickerCalls c"
  by (simp add: tickerCalls_def)

lemma tickerCalls_notifyConnection [simp]:
  "tickerCalls (notifyConnection b c) = tickerCalls c"
  by (simp add: notifyConnection_def tickerCalls_emit)

lemma onTickerUpdate_kept [simp]:
  "onTickerUpdate (notifyConnection b c) = onTickerUpdate c"
  "onTickerUpdate (emit x c) = onTickerUpdate c"
  by (simp_all add: notifyConnection_def emit_def)

text \<open>
  C8. For a kline event that carries a close price, the message handler of either
  revision calls the registered ticker listener exactly once, with a ticker made up from
  the kline whose change fields \<^verbatim>\<open>p\<close> and \<^verbatim>\<open>P\<close> are both the string \<^verbatim>\<open>0.00\<close>.
\<close>

theorem kline_message_sends_zero_change_ticker:
  assumes "msg_e d = ''kline''" and "msg_k d = Some k" and "k_c k \<noteq> []"
    and "onTickerUpdate c"
  shows "tickerCalls (ws_onmessage now (Json d) c) = tickerCalls c @ [syntheticTicker d k]
       \<and> tickerCalls (ws_onmessage_v1 now (Json d) c) = tickerCalls c @ [syntheticTicker d k]
       \<and> tk_p (syntheticTicker d k) = ''0.00'' \<and> tk_P (syntheticTicker d k) = ''0.00''
       \<and> tk_c (syntheticTicker d k) = k_c k"
  using assms
  by (simp add: ws_onmessage_def ws_onmessage_v1_def Let_def tickerCalls_emit
      syntheticTicker_def)

theorem kline_message_sends_zero_change_ticker_witness:
  "tickerCalls (ws_onmessage 5000
      (Json \<lparr>msg_e = ''kline'', msg_E = 1700000001000, msg_s = ''BTCUSDT'',
             msg_k = Some \<lparr>k_t = 1700000000000, k_o = ''43000.10'', k_c = ''43010.55'',
                           k_h = ''43020.00'', k_l = ''42990.00'', k_v = ''12.5''\<rparr>\<rparr>)
      (onTicker (createBinanceWebSocket ''BTCUSDT'' ''1m''))) = [sentinelTicker]"
  using kline_message_sends_zero_change_ticker [of
      "\<lparr>msg_e = ''kline'', msg_E = 1700000001000, msg_s = ''BTCUSDT'',
        msg_k = Some \<lparr>k_t = 1700000000000, k_o = ''43000.10'', k_c = ''43010.55'',
                      k_h = ''43020.00'', k_l = ''42990.00'', k_v = ''12.5''\<rparr>\<rparr>"
      "\<lparr>k_t = 1700000000000, k_o = ''43000.10'', k_c = ''43010.55'',
        k_h = ''43020.00'', k_l = ''42990.00'', k_v = ''12.5''\<rparr>"
      "onTicker (createBinanceWebSocket ''BTCUSDT'' ''1m'')" 5000]
  by (simp add: onTicker_def createBinanceWebSocket_def tickerCalls_def syntheticTicker_def
      sentinelTicker_def map_filter_def)

subsection \<open>Reconnection policy\<close>

lemma jitter_range:
  fixes rnd :: real
  assumes "0 \<le> rnd" "rnd < 1"
  shows "0 \<le> rnd * 2000 \<and> rnd * 2000 \<le> 2000" "0 \<le> rnd * 1000 \<and> rnd * 1000 \<le> 1000"
  using assms by auto

lemma ws_onclose_calls:
  "ws_onclose code now rnd c =
     (if code \<noteq> 1000 \<and> \<not> isCircuitBreakerActive (closeCleanup c)
      then handleReconnect now rnd (closeCleanup c) else closeCleanup c)"
  by (simp add: ws_onclose_def closeCleanup_def Let_def)

text \<open>
  The two places where the class calls \<^verbatim>\<open>handleReconnect\<close>: each call is made in a
  state of \<open>reconnectCalled\<close>, and in every such state the circuit breaker is not
  active.
\<close>

lemma ws_onclose_reconnectCalled:
  "(if code \<noteq> 1000 \<and> \<not> isCircuitBreakerActive (closeCleanup c)
    then ws_onclose code now rnd c = handleReconnect now rnd (closeCleanup c) \<and>
         reconnectCalled (closeCleanup c)
    else ws_onclose code now rnd c = closeCleanup c)"
  by (auto simp: ws_onclose_calls intro: reconnectCalled.fromClose)

lemma errorRetry_reconnectCalled:
  "(if \<not> isConnected c \<and> reconnectAttempts c < maxReconnectAttempts c
       \<and> \<not> isCircuitBreakerActive c
    then runTask ErrorRetry now ctorError rnd c = handleReconnect now rnd c \<and>
         reconnectCalled c
    else runTask ErrorRetry now ctorError rnd c = c)"
  by (auto intro: reconnectCalled.fromRetry)

lemma reconnectCalled_breaker_off:
  "reconnectCalled c \<Longrightarrow> \<not> isCircuitBreakerActive c"
  by (induction rule: reconnectCalled.induct) simp_all

text \<open>
  With the attempts used up and the circuit breaker active, a call would report nothing;
  the class makes no such call.
\<close>

lemma handleReconnect_under_breaker:
  "isCircuitBreakerActive c \<Longrightarrow> handleReconnect now rnd c = c \<and> \<not> reconnectCalled c"
  using reconnectCalled_breaker_off [of c] by (auto simp: handleReconnect_def)

lemma lastAttemptClient_state:
  "reconnectAttempts (closeCleanup lastAttemptClient) = 3 \<and>
   maxReconnectAttempts (closeCleanup lastAttemptClient) = 3 \<and>
   onErrorCallback (closeCleanup lastAttemptClient) \<and>
   \<not> isCircuitBreakerActive (closeCleanup lastAttemptClient) \<and>
   timers (closeCleanup lastAttemptClient) = []"
  by code_simp

lemma exhaustedClient_state:
  "reconnectAttempts exhaustedClient = 3 \<and> maxReconnectAttempts exhaustedClient = 3 \<and>
   onErrorCallback exhaustedClient \<and> isCircuitBreakerActive exhaustedClient \<and>
   effects exhaustedClient =
     [SocketCreated ''wss://stream.binance.com:9443/ws/btcusdt@kline_1m'',
      ConnectionChange False,
      SocketCreated ''wss://stream.binance.com:9443/ws/btcusdt@kline_1m'',
      ConnectionChange False,
      SocketCreated ''wss://stream.binance.com:443/ws/btcusdt@kline_1m'',
      ConnectionChange False,
      SocketCreated ''wss://data-stream.binance.vision/ws/btcusdt@kline_1m'',
      ConnectionChange False,
      ErrorCallback ''Max reconnection attempts reached'']"
  by code_simp

lemma exhaustedClient_is_call:
  "exhaustedClient = handleReconnect 33000 0 (closeCleanup lastAttemptClient)"
  using lastAttemptClient_state by (simp add: exhaustedClient_def ws_onclose_calls)

text \<open>
  C5. \<^verbatim>\<open>handleReconnect\<close> schedules a reconnect (sets a timer) exactly when the attempt
  counter is below the maximum and the circuit breaker is not active. When it does, it
  raises the counter to \<open>n\<close>, reports nothing, and the delay of the timer is
  \<open>min (baseDelay * 2 ^ (n - 1)) maxDelay\<close> plus the jitter \<^verbatim>\<open>Math.random() * maxJitter\<close>
  (3000, 60000, 2000): the jitter lies between 0 and \<open>maxJitter\<close> and is at most \<open>x\<close>
  exactly when the random number is at most \<open>x / maxJitter\<close>, so it is spread over its
  range as \<^verbatim>\<open>Math.random()\<close> is over \<open>[0, 1)\<close>, uniformly. In every call the class makes
  with the counter at the maximum, it schedules nothing and reports the error. The
  earlier revision, which has no circuit breaker, does the same with 1000, 30000, 1000,
  in every state.
\<close>

theorem handleReconnect_policy:
  assumes "0 \<le> rnd" and "rnd < 1"
  shows
    "(let c' = handleReconnect now rnd c; n = Suc (reconnectAttempts c) in
      ((timers c' \<noteq> timers c) =
         (reconnectAttempts c < maxReconnectAttempts c \<and> \<not> isCircuitBreakerActive c)) \<and>
      (reconnectAttempts c < maxReconnectAttempts c \<and> \<not> isCircuitBreakerActive c \<longrightarrow>
         reconnectAttempts c' = n \<and> effects c' = effects c \<and>
         timers c' = timers c @
           [\<lparr>handle = nextHandle c, task = Reconnect,
             delay = min (3000 * 2 ^ (n - 1)) 60000 + rnd * 2000, periodic = False\<rparr>] \<and>
         0 \<le> rnd * 2000 \<and> rnd * 2000 \<le> 2000 \<and>
         (\<forall>x. (rnd * 2000 \<le> x) = (rnd \<le> x / 2000))) \<and>
      (reconnectCalled c \<and> \<not> reconnectAttempts c < maxReconnectAttempts c \<longrightarrow>
         timers c' = timers c \<and>
         effects c' = effects c @
           (if onErrorCallback c then [ErrorCallback ''Max reconnection attempts reached'']
            else [])))
     \<and>
     (let c' = handleReconnect_v1 rnd c; n = Suc (reconnectAttempts c) in
      ((timers c' \<noteq> timers c) = (reconnectAttempts c < maxReconnectAttempts c)) \<and>
      (reconnectAttempts c < maxReconnectAttempts c \<longrightarrow>
         reconnectAttempts c' = n \<and> effects c' = effects c \<and>
         timers c' = timers c @
           [\<lparr>handle = nextHandle c, task = Reconnect,
             delay = min (1000 * 2 ^ (n - 1)) 30000 + rnd * 1000, periodic = False\<rparr>] \<and>
         0 \<le> rnd * 1000 \<and> rnd * 1000 \<le> 1000 \<and>
         (\<forall>x. (rnd * 1000 \<le> x) = (rnd \<le> x / 1000))) \<and>
      (\<not> reconnectAttempts c < maxReconnectAttempts c \<longrightarrow>
         timers c' = timers c \<and>
         effects c' = effects c @
           (if onErrorCallback c then [ErrorCallback ''Max reconnection attempts reached'']
            else [])))"
proof -
  have off: "reconnectCalled c \<Longrightarrow> \<not> isCircuitBreakerActive c"
    by (rule reconnectCalled_breaker_off)
  have scale: "(rnd * 2000 \<le> x) = (rnd \<le> x / 2000)" "(rnd * 1000 \<le> x) = (rnd \<le> x / 1000)"
    for x :: real
    by (simp_all add: field_simps)
  show ?thesis
    using jitter_range [OF assms] off scale
    by (auto simp: handleReconnect_def handleReconnect_v1_def Let_def addTimer_def
        handleConnectionError_def emit_def)
qed

theorem handleReconnect_policy_witness:
  "timers (handleReconnect 20000 (1/2) (createBinanceWebSocket ''BTCUSDT'' ''1m'')) =
     [\<lparr>handle = 1, task = Reconnect, delay = 4000, periodic = False\<rparr>] \<and>
   reconnectAttempts (handleReconnect 20000 (1/2) (createBinanceWebSocket ''BTCUSDT'' ''1m'')) = 1 \<and>
   reconnectCalled (closeCleanup lastAttemptClient) \<and>
   timers exhaustedClient = [] \<and>
   effects exhaustedClient =
     effects (closeCleanup lastAttemptClient) @
       [ErrorCallback ''Max reconnection attempts reached'']"
proof -
  have called: "reconnectCalled (closeCleanup lastAttemptClient)"
    using lastAttemptClient_state
    by (intro reconnectCalled.fromClose [of 1006]) simp_all
  show ?thesis
    using called lastAttemptClient_state exhaustedClient_is_call
      handleReconnect_policy [of "1/2" 20000 "createBinanceWebSocket ''BTCUSDT'' ''1m''"]
      handleReconnect_policy [of 0 33000 "closeCleanup lastAttemptClient"]
    by (simp add: createBinanceWebSocket_def Let_def)
qed

subsection \<open>Timers that outlive \<^verbatim>\<open>disconnect\<close>\<close>

text \<open>
  C3. The claim asks that no timer of the instance is pending once \<^verbatim>\<open>disconnect\<close> has
  returned. In the example the reconnect timer set by the abnormal close is still
  pending after \<^verbatim>\<open>disconnect\<close>, and when it fires the disconnected client opens a new
  socket.
\<close>

theorem disconnect_leaves_reconnect_pending:
  "ws abandonedClient = None \<and>
   timers abandonedClient =
     [\<lparr>handle = 4, task = Reconnect, delay = 3000, periodic = False\<rparr>] \<and>
   ws (fireTimer 4 23000 None 0 abandonedClient) =
     Some \<lparr>wsUrl = ''wss://stream.binance.com:9443/ws/btcusdt@kline_1m'',
           readyState = CONNECTING\<rparr> \<and>
   effects (fireTimer 4 23000 None 0 abandonedClient) =
     effects abandonedClient @
       [SocketCreated ''wss://stream.binance.com:9443/ws/btcusdt@kline_1m'']"
  by code_simp

text \<open>
  \<^verbatim>\<open>disconnect\<close> cancels exactly the timers whose handles the object keeps; every other
  pending timer stays pending.
\<close>

lemma disconnect_timers:
  "timers (disconnect c) =
     filter (\<lambda>t. Some (handle t) \<noteq> connectionTimeout c \<and> Some (handle t) \<noteq> pingInterval c
                 \<and> Some (handle t) \<noteq> dataTimeoutCheck c) (timers c)"
  by (auto simp: disconnect_def clearConnectionTimeout_def stopHeartbeat_def
      stopDataTimeoutCheck_def closeSocket_def emit_def clearTimer_def Let_def
      split: option.splits intro!: filter_cong)

lemma disconnect_clears_kept_handles:
  "connectionTimeout (disconnect c) = None \<and> pingInterval (disconnect c) = None \<and>
   dataTimeoutCheck (disconnect c) = None"
  by (simp add: disconnect_def clearConnectionTimeout_def stopHeartbeat_def
      stopDataTimeoutCheck_def closeSocket_def emit_def clearTimer_def Let_def
      split: option.splits)

subsection \<open>The circuit breaker\<close>

lemma connect_gated_by_breaker:
  assumes "isCircuitBreakerActive c" and "now - lastErrorTime c < circuitBreakerDelay c"
  shows "connect now ctorError c = c"
  using assms by (simp add: connect_def)

lemma ws_onerror_trips_at_three:
  assumes "errorCount c = 2"
  shows "isCircuitBreakerActive (ws_onerror msg now c) \<and>
         errorCount (ws_onerror msg now c) = 3 \<and>
         lastErrorTime (ws_onerror msg now c) = now \<and>
         timers (ws_onerror msg now c) = timers c"
  using assms
  by (simp add: ws_onerror_def Let_def emit_def notifyConnection_def
      handleConnectionError_def)

lemma connect_after_cooldown:
  assumes "isCircuitBreakerActive c" and "circuitBreakerDelay c \<le> now - lastErrorTime c"
    and "3000 \<le> now - lastConnectionTime c" and "\<not> isConnecting c"
    and "connectionAttempts c < 5"
  shows "\<not> isCircuitBreakerActive (connect now None c) \<and>
         errorCount (connect now None c) = 0 \<and>
         (\<exists>w. ws (connect now None c) = Some w \<and> readyState w = CONNECTING)"
  using assms
  by (simp add: connect_def Let_def emit_def addTimer_def clearTimer_def
      split: option.splits)

text \<open>No operation of the client assigns \<^verbatim>\<open>circuitBreakerDelay\<close>.\<close>

lemma cooldown_host [simp]:
  "circuitBreakerDelay (emit x c) = circuitBreakerDelay c"
  "circuitBreakerDelay (addTimer k d rep c) = circuitBreakerDelay c"
  "circuitBreakerDelay (clearTimer h c) = circuitBreakerDelay c"
  "circuitBreakerDelay (socketBecomes r c) = circuitBreakerDelay c"
  by (simp_all add: emit_def addTimer_def clearTimer_def socketBecomes_def)

lemma cooldown_helpers [simp]:
  "circuitBreakerDelay (closeSocket c) = circuitBreakerDelay c"
  "circuitBreakerDelay (handleConnectionError msg c) = circuitBreakerDelay c"
  "circuitBreakerDelay (notifyConnection b c) = circuitBreakerDelay c"
  "circuitBreakerDelay (clearConnectionTimeout c) = circuitBreakerDelay c"
  "circuitBreakerDelay (stopHeartbeat c) = circuitBreakerDelay c"
  "circuitBreakerDelay (stopDataTimeoutCheck c) = circuitBreakerDelay c"
  by (simp_all add: closeSocket_def handleConnectionError_def notifyConnection_def
      clearConnectionTimeout_def stopHeartbeat_def stopDataTimeoutCheck_def
      split: option.splits)

lemma cooldown_monitors [simp]:
  "circuitBreakerDelay (startHeartbeat c) = circuitBreakerDelay c"
  "circuitBreakerDelay (startDataTimeoutCheck c) = circuitBreakerDelay c"
  by (simp_all add: startHeartbeat_def startDataTimeoutCheck_def Let_def)

lemma cooldown_handleReconnect [simp]:
  "circuitBreakerDelay (handleReconnect now rnd c) = circuitBreakerDelay c"
  by (simp add: handleReconnect_def Let_def)

lemma cooldown_connect [simp]:
  "circuitBreakerDelay (connect now ctorError c) = circuitBreakerDelay c"
  by (simp add: connect_def Let_def split: option.splits)

lemma cooldown_handlers [simp]:
  "circuitBreakerDelay (ws_onopen now c) = circuitBreakerDelay c"
  "circuitBreakerDelay (ws_onmessage now inbound c) = circuitBreakerDelay c"
  "circuitBreakerDelay (ws_onclose code now rnd c) = circuitBreakerDelay c"
  "circuitBreakerDelay (ws_onerror msg now c) = circuitBreakerDelay c"
  "circuitBreakerDelay (disconnect c) = circuitBreakerDelay c"
  by (simp_all add: ws_onopen_def ws_onmessage_def ws_onclose_def ws_onerror_def
      disconnect_def Let_def split: option.splits Inbound.splits)

lemma cooldown_changeStream [simp]:
  "circuitBreakerDelay (changeStream sy iv c) = circuitBreakerDelay c"
  by (simp add: changeStream_def Let_def)

lemma cooldown_runTask [simp]:
  "circuitBreakerDelay (runTask k now ctorError rnd c) = circuitBreakerDelay c"
  by (cases k) (simp_all split: option.splits)

lemma cooldown_fireTimer:
  "circuitBreakerDelay (fireTimer h now ctorError rnd c) = circuitBreakerDelay c"
  by (simp add: fireTimer_def split: option.splits)

text \<open>
  C4. The claim asks for a cooldown that grows with the trips, up to 120 s. In the
  example the third error trips the breaker at 19150 ms and the handler announces a
  cooldown of 45 s; \<^verbatim>\<open>connect\<close> is a no-op 14999 ms after the trip and opens a socket
  15000 ms after it: the window is the constant \<^verbatim>\<open>circuitBreakerDelay\<close>.
\<close>

theorem breaker_cooldown_stays_fixed:
  "isCircuitBreakerActive trippedClient \<and> errorCount trippedClient = 3 \<and>
   lastErrorTime trippedClient = 19150 \<and>
   BreakerAnnounced 45000 \<in> set (effects trippedClient) \<and>
   connect (19150 + 14999) None trippedClient = trippedClient \<and>
   ws (connect (19150 + 15000) None trippedClient) =
     Some \<lparr>wsUrl = ''wss://data-stream.binance.vision/ws/btcusdt@kline_1m'',
           readyState = CONNECTING\<rparr>"
  by code_simp


section \<open>The data orchestrator: results\<close>

subsection \<open>The zero sentinel of the ticker listener\<close>

lemma parseUnsigned_zero: "parseUnsigned ''0.00'' = Some 0"
  by (simp add: parseUnsigned_def isDigit_def digitsValue_def digitValue_def)

lemma parseDecimal_zero: "parseDecimal ''0.00'' = Num 0"
  by (simp add: parseDecimal_def parseUnsigned_zero)

lemma parseUnsigned_price: "parseUnsigned ''43010.55'' = Some 43010.55"
  by (simp add: parseUnsigned_def isDigit_def digitsValue_def digitValue_def)

lemma parseDecimal_price: "parseDecimal ''43010.55'' = Num 43010.55"
  by (simp add: parseDecimal_def parseUnsigned_price)

text \<open>
  C1. A ticker update whose change fields \<^verbatim>\<open>p\<close> and \<^verbatim>\<open>P\<close> both parse to zero leaves the
  held \<^verbatim>\<open>priceChange\<close> and \<^verbatim>\<open>priceChangePercent\<close> as they are, whatever they are, and
  still sets the current price from the message.
\<close>

theorem zero_change_ticker_keeps_change:
  assumes "parseFloat H (tk_p d) = Num 0" and "parseFloat H (tk_P d) = Num 0"
  shows "priceChange (stableHandleTickerUpdate H b now d h) = priceChange h \<and>
         priceChangePercent (stableHandleTickerUpdate H b now d h) = priceChangePercent h \<and>
         currentPrice (stableHandleTickerUpdate H b now d h) = Some (parseFloat H (tk_c d))"
  using assms
  by (simp add: stableHandleTickerUpdate_def syncConnection_def nonZero_def Let_def)

theorem zero_change_ticker_keeps_change_witness:
  "priceChange (stableHandleTickerUpdate exampleHost True 6000 sentinelTicker
      ((useMarketData 0)\<lparr>priceChange := Num 150.25, priceChangePercent := Num 1.42\<rparr>))
     = Num 150.25 \<and>
   priceChangePercent (stableHandleTickerUpdate exampleHost True 6000 sentinelTicker
      ((useMarketData 0)\<lparr>priceChange := Num 150.25, priceChangePercent := Num 1.42\<rparr>))
     = Num 1.42 \<and>
   currentPrice (stableHandleTickerUpdate exampleHost True 6000 sentinelTicker
      ((useMarketData 0)\<lparr>priceChange := Num 150.25, priceChangePercent := Num 1.42\<rparr>))
     = Some (Num 43010.55)"
proof -
  have p: "parseFloat exampleHost (tk_p sentinelTicker) = Num 0"
    by (simp add: exampleHost_def sentinelTicker_def parseDecimal_zero)
  have P: "parseFloat exampleHost (tk_P sentinelTicker) = Num 0"
    by (simp add: exampleHost_def sentinelTicker_def parseDecimal_zero)
  have c: "parseFloat exampleHost (tk_c sentinelTicker) = Num 43010.55"
    by (simp add: exampleHost_def sentinelTicker_def parseDecimal_price)
  show ?thesis
    using zero_change_ticker_keeps_change [OF p P, of True 6000
        "(useMarketData 0)\<lparr>priceChange := Num 150.25, priceChangePercent := Num 1.42\<rparr>"]
    by (simp add: c)
qed

text \<open>
  The ticker the client makes up from a kline event goes through the listener without
  touching the change, wherever \<^verbatim>\<open>parseFloat\<close> reads \<^verbatim>\<open>0.00\<close> as zero.
\<close>

lemma synthetic_ticker_keeps_change:
  assumes "parseFloat H ''0.00'' = Num 0"
  shows "priceChange (stableHandleTickerUpdate H b now (syntheticTicker d k) h) = priceChange h \<and>
         priceChangePercent (stableHandleTickerUpdate H b now (syntheticTicker d k) h)
           = priceChangePercent h"
  using assms
  by (simp add: stableHandleTickerUpdate_def syncConnection_def nonZero_def Let_def
      syntheticTicker_def)

text \<open>A change field that does not parse to zero is taken over.\<close>

lemma nonzero_change_ticker_overwrites:
  assumes "parseFloat H (tk_p d) \<noteq> Num 0 \<or> parseFloat H (tk_P d) \<noteq> Num 0"
  shows "priceChange (stableHandleTickerUpdate H b now d h) = parseFloat H (tk_p d) \<and>
         priceChangePercent (stableHandleTickerUpdate H b now d h) = parseFloat H (tk_P d)"
  using assms
  by (auto simp: stableHandleTickerUpdate_def syncConnection_def nonZero_def Let_def)

subsection \<open>The calls in flight and their flags\<close>

lemma count_split:
  assumes "i < length xs"
  shows "length (filter P xs) =
         length (filter P (take i xs)) + (if P (xs ! i) then 1 else 0)
           + length (filter P (drop (Suc i) xs))"
proof -
  have "filter P xs = filter P (take i xs @ xs ! i # drop (Suc i) xs)"
    by (rule arg_cong [where f = "filter P"]) (rule id_take_nth_drop [OF assms])
  also have "length \<dots> = length (filter P (take i xs)) + (if P (xs ! i) then 1 else 0)
           + length (filter P (drop (Suc i) xs))"
    by simp
  finally show ?thesis .
qed

lemma count_list_update:
  assumes "i < length xs" and "P y = P (xs ! i)"
  shows "length (filter P (xs[i := y])) = length (filter P xs)"
proof -
  have "length (filter P (xs[i := y])) =
        length (filter P (take i xs)) + (if P y then 1 else 0)
           + length (filter P (drop (Suc i) xs))"
    by (simp add: upd_conv_take_nth_drop [OF assms(1)])
  with count_split [OF assms(1), of P] assms(2) show ?thesis by simp
qed

lemma count_list_remove:
  assumes "i < length xs"
  shows "length (filter P (take i xs @ drop (Suc i) xs)) =
         length (filter P xs) - (if P (xs ! i) then 1 else 0)"
  using count_split [OF assms, of P] by simp

lemma priceFetched_keeps [simp]:
  "pending (priceFetched H t tk h) = pending h"
  "isRefreshingRef (priceFetched H t tk h) = isRefreshingRef h"
  "isChangingSymbolRef (priceFetched H t tk h) = isChangingSymbolRef h"
  "isChangingTimeframeRef (priceFetched H t tk h) = isChangingTimeframeRef h"
  by (simp_all add: priceFetched_def)

lemma priceFetchFailed_keeps [simp]:
  "pending (priceFetchFailed h) = pending h"
  "isRefreshingRef (priceFetchFailed h) = isRefreshingRef h"
  "isChangingSymbolRef (priceFetchFailed h) = isChangingSymbolRef h"
  "isChangingTimeframeRef (priceFetchFailed h) = isChangingTimeframeRef h"
  by (simp_all add: priceFetchFailed_def)

lemma klinesFetched_keeps [simp]:
  "pending (klinesFetched H s now cs h) = pending h"
  "isRefreshingRef (klinesFetched H s now cs h) = isRefreshingRef h"
  "isChangingSymbolRef (klinesFetched H s now cs h) = isChangingSymbolRef h"
  "isChangingTimeframeRef (klinesFetched H s now cs h) = isChangingTimeframeRef h"
  by (simp_all add: klinesFetched_def Let_def)

lemma klinesFailed_keeps [simp]:
  "pending (klinesFailed H now msg h) = pending h"
  "isRefreshingRef (klinesFailed H now msg h) = isRefreshingRef h"
  "isChangingSymbolRef (klinesFailed H now msg h) = isChangingSymbolRef h"
  "isChangingTimeframeRef (klinesFailed H now msg h) = isChangingTimeframeRef h"
  by (simp_all add: klinesFailed_def Let_def)

lemma finish_keeps [simp]:
  "pending (finish H s h) = pending h"
  "isRefreshingRef (finish H s h) = (isRefreshingRef h \<and> caller s \<noteq> RefreshData)"
  "isChangingSymbolRef (finish H s h) = (isChangingSymbolRef h \<and> \<not> isSymbolChange (caller s))"
  "isChangingTimeframeRef (finish H s h) =
     (isChangingTimeframeRef h \<and> \<not> isTimeframeChange (caller s))"
  by (cases "caller s"; simp add: finish_def Let_def)+

lemma advance_pending:
  "pending (snd (advance H s out now h)) = pending h"
  by (cases "await s"; cases out) (simp_all add: advance_def Let_def)

text \<open>
  A call that runs on keeps its caller and the flags; only a call that finishes lowers
  a flag, and only its own.
\<close>

lemma advance_refreshing:
  "(case fst (advance H s out now h) of
      Some s' \<Rightarrow> (caller s' = RefreshData) = (caller s = RefreshData) \<and>
                 isRefreshingRef (snd (advance H s out now h)) = isRefreshingRef h
    | None \<Rightarrow> isRefreshingRef (snd (advance H s out now h)) =
               (isRefreshingRef h \<and> \<not> caller s = RefreshData))"
  by (cases "await s"; cases out) (simp_all add: advance_def Let_def)

lemma advance_changingSymbol:
  "(case fst (advance H s out now h) of
      Some s' \<Rightarrow> isSymbolChange (caller s') = isSymbolChange (caller s) \<and>
                 isChangingSymbolRef (snd (advance H s out now h)) = isChangingSymbolRef h
    | None \<Rightarrow> isChangingSymbolRef (snd (advance H s out now h)) =
               (isChangingSymbolRef h \<and> \<not> isSymbolChange (caller s)))"
  by (cases "await s"; cases out) (simp_all add: advance_def Let_def)

lemma advance_changingTimeframe:
  "(case fst (advance H s out now h) of
      Some s' \<Rightarrow> isTimeframeChange (caller s') = isTimeframeChange (caller s) \<and>
                 isChangingTimeframeRef (snd (advance H s out now h)) =
                   isChangingTimeframeRef h
    | None \<Rightarrow> isChangingTimeframeRef (snd (advance H s out now h)) =
               (isChangingTimeframeRef h \<and> \<not> isTimeframeChange (caller s)))"
  by (cases "await s"; cases out) (simp_all add: advance_def Let_def)

text \<open>
  Resuming a call keeps a flag in step with the calls it counts, for any flag \<open>f\<close> and
  kind of call \<open>P\<close> that \<open>advance\<close> treats as above.
\<close>

lemma inFlight_resume:
  fixes f :: "('a, 'i) MarketData \<Rightarrow> bool" and P :: "Suspended \<Rightarrow> bool"
  assumes inv: "length (filter P (pending h)) = (if f h then 1 else 0)"
    and adv: "\<And>s. (case fst (advance H s out now h) of
                  Some s' \<Rightarrow> P s' = P s \<and> f (snd (advance H s out now h)) = f h
                | None \<Rightarrow> f (snd (advance H s out now h)) = (f h \<and> \<not> P s))"
    and upd: "\<And>g xs. f (g\<lparr>pending := xs\<rparr>) = f g"
  shows "length (filter P (pending (resume H i out now h))) =
         (if f (resume H i out now h) then 1 else 0)"
proof (cases "i < length (pending h)")
  case False
  with inv show ?thesis by (simp add: resume_def)
next
  case True
  obtain r h' where a: "advance H (pending h ! i) out now h = (r, h')"
    by (cases "advance H (pending h ! i) out now h")
  show ?thesis
  proof (cases r)
    case (Some s')
    have same: "P s' = P (pending h ! i)" "f h' = f h"
      using adv [of "pending h ! i"] a Some by simp_all
    have "length (filter P ((pending h)[i := s'])) = length (filter P (pending h))"
      using True same(1) by (rule count_list_update)
    moreover have "resume H i out now h = h'\<lparr>pending := (pending h)[i := s']\<rparr>"
      using True a Some by (simp add: resume_def)
    ultimately show ?thesis
      using inv same(2) by (simp add: upd)
  next
    case None
    have fl: "f h' = (f h \<and> \<not> P (pending h ! i))"
      using adv [of "pending h ! i"] a None by simp
    have cnt: "length (filter P (take i (pending h) @ drop (Suc i) (pending h))) =
               length (filter P (pending h)) - (if P (pending h ! i) then 1 else 0)"
      using True by (rule count_list_remove)
    have res: "resume H i out now h =
               h'\<lparr>pending := take i (pending h) @ drop (Suc i) (pending h)\<rparr>"
      using True a None by (simp add: resume_def)
    show ?thesis
    proof (cases "P (pending h ! i)")
      case True
      have "0 < length (filter P (pending h))"
        using \<open>i < length (pending h)\<close> True
        by (auto simp: filter_empty_conv intro!: nth_mem)
      with inv have "f h" by (auto split: if_splits)
      with True inv fl cnt res show ?thesis by (simp add: upd)
    next
      case False
      with inv fl cnt res show ?thesis by (simp add: upd)
    qed
  qed
qed

lemma flagged_resume:
  assumes "flagged h"
  shows "flagged (resume H i out now h)"
proof -
  have "refreshesInFlight (resume H i out now h) =
        (if isRefreshingRef (resume H i out now h) then 1 else 0)"
    unfolding refreshesInFlight_def
    using assms advance_refreshing [of H _ out now h]
    by (intro inFlight_resume) (simp_all add: flagged_def refreshesInFlight_def)
  moreover have "symbolChangesInFlight (resume H i out now h) =
        (if isChangingSymbolRef (resume H i out now h) then 1 else 0)"
    unfolding symbolChangesInFlight_def
    using assms advance_changingSymbol [of H _ out now h]
    by (intro inFlight_resume) (simp_all add: flagged_def symbolChangesInFlight_def)
  moreover have "timeframeChangesInFlight (resume H i out now h) =
        (if isChangingTimeframeRef (resume H i out now h) then 1 else 0)"
    unfolding timeframeChangesInFlight_def
    using assms advance_changingTimeframe [of H _ out now h]
    by (intro inFlight_resume) (simp_all add: flagged_def timeframeChangesInFlight_def)
  ultimately show ?thesis by (simp add: flagged_def)
qed

lemma flagged_same:
  assumes "flagged h" and "pending h' = pending h"
    and "isRefreshingRef h' = isRefreshingRef h"
    and "isChangingSymbolRef h' = isChangingSymbolRef h"
    and "isChangingTimeframeRef h' = isChangingTimeframeRef h"
  shows "flagged h'"
  using assms
  by (simp add: flagged_def refreshesInFlight_def symbolChangesInFlight_def
      timeframeChangesInFlight_def)

lemma flagged_refreshData:
  assumes "flagged h"
  shows "flagged (refreshData now h)"
proof (cases "isRefreshingRef h")
  case True
  with assms show ?thesis by (simp add: refreshData_def)
next
  case False
  with assms have "filter (\<lambda>s. caller s = RefreshData) (pending h) = []"
    by (simp add: flagged_def refreshesInFlight_def)
  with False assms show ?thesis
    by (simp add: flagged_def refreshesInFlight_def symbolChangesInFlight_def
        timeframeChangesInFlight_def refreshData_def suspend_def Let_def)
qed

lemma flagged_changeSymbol:
  assumes "flagged h"
  shows "flagged (changeSymbol now sy h)"
proof (cases "sy = currentSymbol h \<or> isChangingSymbolRef h")
  case True
  with assms show ?thesis by (auto simp: changeSymbol_def)
next
  case False
  with assms have "filter (\<lambda>s. isSymbolChange (caller s)) (pending h) = []"
    by (simp add: flagged_def symbolChangesInFlight_def)
  with False assms show ?thesis
    by (simp add: flagged_def refreshesInFlight_def symbolChangesInFlight_def
        timeframeChangesInFlight_def changeSymbol_def suspend_def Let_def)
qed

lemma flagged_changeTimeframe:
  assumes "flagged h"
  shows "flagged (changeTimeframe now tf h)"
proof (cases "tf = currentTimeframe h \<or> isChangingTimeframeRef h")
  case True
  with assms show ?thesis by (auto simp: changeTimeframe_def)
next
  case False
  with assms have "filter (\<lambda>s. isTimeframeChange (caller s)) (pending h) = []"
    by (simp add: flagged_def timeframeChangesInFlight_def)
  with False assms show ?thesis
    by (simp add: flagged_def refreshesInFlight_def symbolChangesInFlight_def
        timeframeChangesInFlight_def changeTimeframe_def suspend_def Let_def)
qed

lemma flagged_monitoringTick:
  assumes "flagged h"
  shows "flagged (monitoringTick now h)"
proof (cases "now - lastPriceUpdateTime h > 120000 \<and> isConnectedState h")
  case True
  then have "monitoringTick now h =
             h\<lparr>pending := pending h @ [suspend MonitoringFetch AwaitTicker now h]\<rparr>"
    by (simp add: monitoringTick_def)
  with assms show ?thesis
    by (simp add: flagged_def refreshesInFlight_def symbolChangesInFlight_def
        timeframeChangesInFlight_def suspend_def)
next
  case False
  then have "monitoringTick now h = h" by (auto simp: monitoringTick_def)
  with assms show ?thesis by simp
qed

lemma flagged_reachable: "reachable H h \<Longrightarrow> flagged h"
proof (induction rule: reachable.induct)
  case (mounted now)
  show ?case
    by (simp add: flagged_def refreshesInFlight_def symbolChangesInFlight_def
        timeframeChangesInFlight_def useMarketData_def connectWebSocket_def suspend_def
        Let_def)
next
  case (refresh h now)
  then show ?case by (simp add: flagged_refreshData)
next
  case (timeframe h now tf)
  then show ?case by (simp add: flagged_changeTimeframe)
next
  case (symbol h now sy)
  then show ?case by (simp add: flagged_changeSymbol)
next
  case (monitoring h now)
  then show ?case by (simp add: flagged_monitoringTick)
next
  case (resumed h i out now)
  then show ?case by (simp add: flagged_resume)
next
  case (kline h b now k)
  show ?case
    by (rule flagged_same [OF kline.IH])
       (simp_all add: stableHandleKlineUpdate_def syncConnection_def Let_def)
next
  case (ticker h b now d)
  show ?case
    by (rule flagged_same [OF ticker.IH])
       (simp_all add: stableHandleTickerUpdate_def syncConnection_def Let_def)
next
  case (connection h b)
  show ?case
    by (rule flagged_same [OF connection.IH])
       (simp_all add: stableHandleConnectionChange_def)
next
  case (wsErrored h msg)
  show ?case
    by (rule flagged_same [OF wsErrored.IH])
       (simp_all add: stableHandleWebSocketError_def)
next
  case (wsErrorCleared h)
  show ?case
    by (rule flagged_same [OF wsErrorCleared.IH]) (simp_all add: clearWsError_def)
next
  case (reanalysed h)
  show ?case
    by (rule flagged_same [OF reanalysed.IH]) (simp_all add: reanalyse_def)
next
  case (connecting h now)
  show ?case
    by (rule flagged_same [OF connecting.IH]) (simp_all add: connectWebSocket_def)
next
  case (connectTimer h b)
  show ?case
    by (rule flagged_same [OF connectTimer.IH]) (simp_all add: webSocketTimer_def)
next
  case (cleanedUp h)
  show ?case
    by (rule flagged_same [OF cleanedUp.IH]) (simp_all add: effectCleanup_def)
qed

subsection \<open>Changing the subscription\<close>

lemma parse_examples:
  "parseDecimal ''43050.00'' = Num 43050"
  "parseDecimal ''150.25'' = Num 150.25"
  "parseDecimal ''1.42'' = Num 1.42"
  by (simp_all add: parseDecimal_def parseUnsigned_def isDigit_def digitsValue_def
      digitValue_def)

lemma loadedHook_state:
  "loadedHook =
     \<lparr>candleData = [exampleCandle], analysis = Some 1, indicatorArrays = Some 1,
      isLoading = False, error = None, lastUpdate = Some 1700000000500,
      currentTimeframe = ''1d'', currentSymbol = ''BTCUSDT'', isConnectedState = False,
      currentPrice = Some (Num 43050), priceChange = Num 150.25,
      priceChangePercent = Num 1.42, tickerData = Some exampleTicker, wsError = None,
      connectionState = ''Not initialized'', lastPriceUpdateTime = 1700000000000,
      lastFetchTimeRef = 1700000000200, lastPriceFetchRef = 1700000000000,
      isRefreshingRef = False, isChangingTimeframeRef = False,
      isChangingSymbolRef = False, lastSyncRef = 0, isConnectingRef = True,
      lastConnectionAttemptRef = 1700000000000, pending = []\<rparr>"
  by (simp add: loadedHook_def resume_def advance_def useMarketData_def connectWebSocket_def
      suspend_def priceFetched_def klinesFetched_def finish_def adjustLatest_def truthy_def
      exampleHost_def exampleTicker_def exampleCandle_def parse_examples Let_def)

lemma switchingHook_state:
  "switchingHook =
     loadedHook\<lparr>isChangingSymbolRef := True, currentSymbol := ''ETHUSDT'', isLoading := True,
       isConnectedState := False, connectionState := ''Connecting'', candleData := [],
       analysis := None, indicatorArrays := None, currentPrice := None,
       priceChange := Num 0, priceChangePercent := Num 0, tickerData := None,
       pending :=
         [\<lparr>caller = ChangeSymbol ''ETHUSDT'', await = AwaitDelay,
           callTime = 1700000060000, seenPrice = Some (Num 43050),
           seenCandles = [exampleCandle], seenSymbol = ''BTCUSDT'',
           seenTimeframe = ''1d''\<rparr>]\<rparr>"
  by (simp add: switchingHook_def changeSymbol_def suspend_def loadedHook_state Let_def)

lemma switchingFetchesPrice_state:
  "switchingFetchesPrice =
     switchingHook\<lparr>pending :=
         [\<lparr>caller = ChangeSymbol ''ETHUSDT'', await = AwaitTicker,
           callTime = 1700000060500, seenPrice = Some (Num 43050),
           seenCandles = [exampleCandle], seenSymbol = ''BTCUSDT'',
           seenTimeframe = ''1d''\<rparr>]\<rparr>"
  by (simp add: switchingFetchesPrice_def switchingHook_state resume_def advance_def)

lemma switchingFetchesKlines_state:
  "switchingFetchesKlines =
     switchingHook\<lparr>tickerData := Some exampleTicker, currentPrice := Some (Num 43050),
       priceChange := Num 150.25, priceChangePercent := Num 1.42,
       lastPriceFetchRef := 1700000060500,
       pending :=
         [\<lparr>caller = ChangeSymbol ''ETHUSDT'', await = AwaitKlines,
           callTime = 1700000060700, seenPrice = Some (Num 43050),
           seenCandles = [exampleCandle], seenSymbol = ''BTCUSDT'',
           seenTimeframe = ''1d''\<rparr>]\<rparr>"
  by (simp add: switchingFetchesKlines_def switchingFetchesPrice_state switchingHook_state
      loadedHook_state resume_def advance_def priceFetched_def exampleHost_def exampleTicker_def
      parse_examples Let_def)

lemma switchedHook_state:
  "currentSymbol switchedHook = ''ETHUSDT'' \<and> candleData switchedHook = [exampleCandle] \<and>
   tickerData switchedHook = Some exampleTicker \<and>
   currentPrice switchedHook = Some (Num 43050) \<and> analysis switchedHook = Some 1 \<and>
   error switchedHook = None \<and> \<not> isLoading switchedHook \<and>
   \<not> isChangingSymbolRef switchedHook \<and> pending switchedHook = []"
  by (simp add: switchedHook_def switchingFetchesKlines_state switchingHook_state
      loadedHook_state resume_def advance_def klinesFetched_def finish_def adjustLatest_def
      truthy_def exampleHost_def exampleCandle_def Let_def)


text \<open>
  C7. The claim asks that an actual change resets the dependent state and then fetches
  for the new subscription, so that no data of the old one is retained. The hook is
  loaded for BTCUSDT and \<^verbatim>\<open>changeSymbol('ETHUSDT')\<close> is called. The reset happens: while
  the call waits, the candles, the price and the ticker data are empty. But the
  \<^verbatim>\<open>fetchPriceData\<close> and \<^verbatim>\<open>fetchData\<close> the call then runs are those of the render it
  was called in, whose \<^verbatim>\<open>currentSymbol\<close> is still BTCUSDT: the ticker request and the
  kline request are made for BTCUSDT, and when they have resolved the hook shows the
  candles, the ticker and the price of BTCUSDT under the symbol ETHUSDT, with no error
  and nothing left in flight.
\<close>

theorem changeSymbol_fetches_old_symbol:
  "currentSymbol loadedHook = ''BTCUSDT'' \<and>
   currentSymbol switchingFetchesPrice = ''ETHUSDT'' \<and>
   candleData switchingFetchesPrice = [] \<and> currentPrice switchingFetchesPrice = None \<and>
   tickerData switchingFetchesPrice = None \<and>
   requestsInFlight switchingFetchesPrice = [Fetch24hrTicker ''BTCUSDT''] \<and>
   requestsInFlight switchingFetchesKlines = [FetchKlines ''BTCUSDT'' ''1d'' 100] \<and>
   currentSymbol switchedHook = ''ETHUSDT'' \<and>
   candleData switchedHook = [exampleCandle] \<and>
   tickerData switchedHook = Some exampleTicker \<and>
   currentPrice switchedHook = Some (Num 43050) \<and>
   error switchedHook = None \<and> pending switchedHook = []"
  using switchedHook_state
  by (simp add: switchingFetchesKlines_state switchingFetchesPrice_state switchingHook_state
      loadedHook_state requestsInFlight_def requestOf_def List.map_filter_simps)

text \<open>
  A change of the interval resets nothing: the candles, the analysis and the indicators
  of the old interval stay in place when \<^verbatim>\<open>changeTimeframe\<close> starts the change.
\<close>

lemma changeTimeframe_keeps_old_candles:
  "currentTimeframe loadedHook = ''1d'' \<and>
   currentTimeframe (changeTimeframe 1700000060000 ''1h'' loadedHook) = ''1h'' \<and>
   candleData (changeTimeframe 1700000060000 ''1h'' loadedHook) = [exampleCandle] \<and>
   analysis (changeTimeframe 1700000060000 ''1h'' loadedHook) = Some 1 \<and>
   indicatorArrays (changeTimeframe 1700000060000 ''1h'' loadedHook) = Some 1 \<and>
   requestsInFlight (changeTimeframe 1700000060000 ''1h'' loadedHook) =
     [FetchKlines ''BTCUSDT'' ''1h'' 100]"
  by (simp add: changeTimeframe_def loadedHook_state suspend_def requestsInFlight_def
      requestOf_def List.map_filter_simps Let_def)

text \<open>
  The guards of the two operations: each leaves the state untouched when called with the
  current symbol or interval, and when its own flag is up. By \<open>flagged_reachable\<close> the
  flag of an operation is up exactly while a call of that operation is in flight.
\<close>

lemma changeSubscription_guards:
  "changeSymbol now (currentSymbol h) h = h \<and>
   changeTimeframe now (currentTimeframe h) h = h \<and>
   (isChangingSymbolRef h \<longrightarrow> changeSymbol now sy h = h) \<and>
   (isChangingTimeframeRef h \<longrightarrow> changeTimeframe now tf h = h)"
  by (simp add: changeSymbol_def changeTimeframe_def)

lemma change_in_flight_dropped:
  assumes "reachable H h"
  shows "symbolChangesInFlight h \<le> 1 \<and> timeframeChangesInFlight h \<le> 1 \<and>
         (symbolChangesInFlight h = 1 \<longrightarrow> changeSymbol now sy h = h) \<and>
         (timeframeChangesInFlight h = 1 \<longrightarrow> changeTimeframe now tf h = h)"
  using flagged_reachable [OF assms]
  by (auto simp: flagged_def changeSymbol_def changeTimeframe_def split: if_splits)

text \<open>
  Each guard looks at its own flag only: a change of the interval called while a change
  of symbol is in flight is not dropped, it starts its own request.
\<close>

lemma changeTimeframe_during_changeSymbol:
  "symbolChangesInFlight switchingFetchesPrice = 1 \<and>
   timeframeChangesInFlight (changeTimeframe 1700000060600 ''1h'' switchingFetchesPrice) = 1 \<and>
   requestsInFlight (changeTimeframe 1700000060600 ''1h'' switchingFetchesPrice) =
     [Fetch24hrTicker ''BTCUSDT'', FetchKlines ''ETHUSDT'' ''1h'' 100]"
  by (simp add: changeTimeframe_def switchingFetchesPrice_state switchingHook_state
      loadedHook_state suspend_def requestsInFlight_def requestOf_def
      symbolChangesInFlight_def timeframeChangesInFlight_def List.map_filter_simps Let_def)

subsection \<open>At most one refresh in flight\<close>

text \<open>
  The claim C6 as worded fails: it asks that the underlying fetch is never invoked more
  than once concurrently. When the user refreshes while the mount effect still waits
  for its ticker, one refresh is in flight and two ticker requests are outstanding, one
  of the mount effect and one of the refresh.
\<close>

theorem refresh_overlaps_mount_fetch:
  "refreshesInFlight earlyRefresh = 1 \<and>
   requestsInFlight earlyRefresh =
     [Fetch24hrTicker ''BTCUSDT'', Fetch24hrTicker ''BTCUSDT''] \<and>
   map caller (pending earlyRefresh) = [InitializeData, RefreshData]"
  by (simp add: earlyRefresh_def refreshData_def useMarketData_def connectWebSocket_def
      suspend_def refreshesInFlight_def requestsInFlight_def requestOf_def
      List.map_filter_simps Let_def)

lemma refreshRequests_bound: "length (refreshRequests h) \<le> refreshesInFlight h"
proof -
  have "length (List.map_filter f xs) \<le> length xs" for f :: "Suspended \<Rightarrow> Request option" and xs
    by (induction xs) (simp_all add: List.map_filter_simps split: option.splits)
  then show ?thesis by (simp add: refreshRequests_def refreshesInFlight_def)
qed

text \<open>
  C6, amended. In every state the hook can reach, at most one refresh is in flight and
  the refreshes have at most one request outstanding; a call of \<^verbatim>\<open>refreshData\<close> made
  while one is in flight changes nothing (it starts no fetch and leaves nothing behind
  to run later), and a call made while none is in flight puts exactly one in flight.
  The fetches of the mount effect, of the monitoring interval and of the two change
  operations are not held back by a refresh, nor a refresh by them.
\<close>

theorem refresh_single_flight:
  assumes "reachable H h"
  shows "refreshesInFlight h \<le> 1 \<and> length (refreshRequests h) \<le> 1 \<and>
         (if refreshesInFlight h = 1 then refreshData now h = h
          else refreshesInFlight (refreshData now h) = 1)"
proof (cases "isRefreshingRef h")
  case True
  with flagged_reachable [OF assms] refreshRequests_bound [of h] show ?thesis
    by (simp add: flagged_def refreshData_def)
next
  case False
  with flagged_reachable [OF assms]
  have none: "filter (\<lambda>s. caller s = RefreshData) (pending h) = []"
    by (simp add: flagged_def refreshesInFlight_def)
  with False show ?thesis
    by (simp add: refreshData_def refreshesInFlight_def refreshRequests_def suspend_def
        List.map_filter_simps Let_def)
qed

theorem refresh_single_flight_witness:
  "refreshesInFlight earlyRefresh = 1 \<and>
   refreshRequests earlyRefresh = [Fetch24hrTicker ''BTCUSDT''] \<and>
   refreshData 1700000000400 earlyRefresh = earlyRefresh"
proof -
  have r: "reachable exampleHost earlyRefresh"
    unfolding earlyRefresh_def by (intro reachable.refresh reachable.mounted)
  have one: "refreshesInFlight earlyRefresh = 1 \<and>
             refreshRequests earlyRefresh = [Fetch24hrTicker ''BTCUSDT'']"
    by (simp add: earlyRefresh_def refreshData_def useMarketData_def connectWebSocket_def
        suspend_def refreshesInFlight_def refreshRequests_def requestOf_def
        List.map_filter_simps Let_def)
  from refresh_single_flight [OF r, of 1700000000400] one show ?thesis by simp
qed


section \<open>The freshness cache: results\<close>

lemma getCachedData_fresh_hit:
  assumes "cache key = Some e" and "now - timestamp e < ttl e"
  shows "returned (getCachedData sweep now later key fetchFn t cache) = Inr (data e) \<and>
         \<not> fetchCalled (getCachedData sweep now later key fetchFn t cache)"
  using assms by (simp add: getCachedData_def cleanupCache_def Let_def)

lemma getCachedData_miss_calls_fetch:
  assumes "cache key = None \<or> (\<exists>e. cache key = Some e \<and> \<not> now - timestamp e < ttl e)"
  shows "fetchCalled (getCachedData sweep now later key fetchFn t cache)"
  using assms
  by (auto simp: getCachedData_def cleanupCache_def fetchFresh_def Let_def
      split: option.splits sum.splits)

lemma getCachedData_stale_fallback_unswept:
  assumes "cache key = Some e" and "\<not> now - timestamp e < ttl e"
  shows "returned (getCachedData False now later key (Inl err) t cache) = Inr (data e)"
  using assms by (simp add: getCachedData_def fetchFresh_def Let_def)

lemma getCachedData_no_entry_propagates:
  assumes "cache key = None"
  shows "returned (getCachedData sweep now later key (Inl err) t cache) = Inl err"
  using assms by (simp add: getCachedData_def cleanupCache_def fetchFresh_def Let_def)

text \<open>When the sweep runs, an entry past its TTL is gone before it is looked up.\<close>

lemma getCachedData_swept_propagates:
  assumes "cache key = Some e" and "now - timestamp e > ttl e"
  shows "returned (getCachedData True now later key (Inl err) t cache) = Inl err"
  using assms by (simp add: getCachedData_def cleanupCache_def fetchFresh_def Let_def)



lemma cleanupCache_None: "cache key = None \<Longrightarrow> cleanupCache now cache key = None"
  by (simp add: cleanupCache_def)








text \<open>
  Called on its own with a failing fetch function and an expired entry, the function
  would lose the entry to the sweep: without the sweep the stale value is returned, with
  it the error. By \<open>served_no_entry\<close> the route makes no such call.
\<close>

lemma sweep_before_lookup:
  "staleCache ''market-sentiment'' = Some \<lparr>data = 42, timestamp = 0, ttl = 300000\<rparr> \<and>
   returned (getCachedData True 400000 400010 ''market-sentiment''
               (Inl ''upstream down'') 300000 staleCache) = Inl ''upstream down'' \<and>
   returned (getCachedData False 400000 400010 ''market-sentiment''
               (Inl ''upstream down'') 300000 staleCache) = Inr 42"
  by (simp add: staleCache_def getCachedData_def fetchFresh_def cleanupCache_def)

end
